theory Spec2Isabelle
  imports Complex_Main
begin

section \<open>JavaScript values used by the job pipeline\<close>

text \<open>
  The repository holds two variants of one Express server in \<^verbatim>\<open>src/index.js\<close>: the
  \<^emph>\<open>remote\<close> variant (lines 1-328), which renders through the Shotstack service and
  polls it, and the \<^emph>\<open>local\<close> variant (lines 344-696), which muxes with ffmpeg.
  Definitions are suffixed \<open>_remote\<close> and \<open>_local\<close> where the two differ.

  Request fields and looked-up properties are JavaScript values. The model keeps
  \<^verbatim>\<open>undefined\<close>, \<^verbatim>\<open>null\<close>, booleans and strings, and \<open>Builtin k\<close> for the member named
  \<open>k\<close> that every object literal inherits from \<^verbatim>\<open>Object.prototype\<close>. Numbers, arrays
  and objects in a request body are outside the model. A string is the sequence of its
  characters as JavaScript counts them.
\<close>

datatype jsval = Undefined | Null | Bool bool | Str string | Builtin string

text \<open>Decimal rendering of a word count, as a template literal does it.\<close>

definition digit_char :: "nat \<Rightarrow> char" where
  "digit_char d = char_of (d + 48)"

fun decimal :: "nat \<Rightarrow> string" where
  "decimal n = (if 9 < n then decimal (n div 10) @ [digit_char (n mod 10)] else [digit_char n])"

declare decimal.simps [simp del]

text \<open>
  \<^verbatim>\<open>ToString\<close>. An inherited built-in is a function, printed by V8 as
  \<^verbatim>\<open>function k() { [native code] }\<close> (the constructor is named \<^verbatim>\<open>Object\<close>), except
  \<^verbatim>\<open>__proto__\<close>, an accessor whose value is \<^verbatim>\<open>Object.prototype\<close> itself.
\<close>

definition to_string :: "jsval \<Rightarrow> string" where
  "to_string v =
     (case v of
        Undefined \<Rightarrow> ''undefined''
      | Null \<Rightarrow> ''null''
      | Bool b \<Rightarrow> (if b then ''true'' else ''false'')
      | Str s \<Rightarrow> s
      | Builtin k \<Rightarrow>
          (if k = ''__proto__'' then ''[object Object]''
           else ''function '' @ (if k = ''constructor'' then ''Object'' else k)
                @ ''() { [native code] }''))"

text \<open>Truthiness, as \<^verbatim>\<open>!x\<close> and \<^verbatim>\<open>a || b\<close> test it.\<close>

definition truthy :: "jsval \<Rightarrow> bool" where
  "truthy v =
     (case v of
        Undefined \<Rightarrow> False
      | Null \<Rightarrow> False
      | Bool b \<Rightarrow> b
      | Str s \<Rightarrow> s \<noteq> []
      | Builtin k \<Rightarrow> True)"

definition js_or :: "jsval \<Rightarrow> jsval \<Rightarrow> jsval" where
  "js_or a b = (if truthy a then a else b)"

text \<open>
  The own property names of \<^verbatim>\<open>Object.prototype\<close> in Node. \<^verbatim>\<open>VOICE_IDS\<close> and
  \<^verbatim>\<open>searchTerms\<close> are object literals, so \<^verbatim>\<open>obj[key]\<close> finds these names too when the
  literal has no own property of that name.
\<close>

definition object_prototype_keys :: "string list" where
  "object_prototype_keys =
     [''constructor'', ''__defineGetter__'', ''__defineSetter__'', ''hasOwnProperty'',
      ''__lookupGetter__'', ''__lookupSetter__'', ''isPrototypeOf'',
      ''propertyIsEnumerable'', ''toString'', ''valueOf'', ''__proto__'',
      ''toLocaleString'']"

text \<open>\<^verbatim>\<open>obj[key]\<close> on an object literal whose own properties are strings.\<close>

definition js_get :: "(string \<times> string) list \<Rightarrow> jsval \<Rightarrow> jsval" where
  "js_get obj key =
     (let k = to_string key in
      case map_of obj k of
        Some v \<Rightarrow> Str v
      | None \<Rightarrow> (if k \<in> set object_prototype_keys then Builtin k else Undefined))"

section \<open>Static tables\<close>

definition VOICE_IDS_remote :: "(string \<times> string) list" where
  "VOICE_IDS_remote =
     [(''female_1'', ''21m00Tcm4TlvDq8ikWAM''),
      (''female_2'', ''ThT5KcBeYPX3keUQqHPh''),
      (''male_1'', ''pNInz6obpgDQGcFmaJgB'')]"

definition VOICE_IDS_local :: "(string \<times> string) list" where
  "VOICE_IDS_local =
     [(''female_1'', ''EXAVITQu4vr4xnSDxMaL''),
      (''female_2'', ''XB0fDUnXU5powFXDhCwa''),
      (''male_1'', ''TX3LPaxmHKxFdv7VOQHJ'')]"

definition searchTerms :: "(string \<times> string) list" where
  "searchTerms =
     [(''motivational'', ''motivation success''),
      (''educational'', ''learning study''),
      (''lifestyle'', ''lifestyle luxury''),
      (''fitness'', ''workout gym''),
      (''business'', ''business office''),
      (''travel'', ''travel adventure''),
      (''default'', ''aesthetic cinematic'')]"

text \<open>\<^verbatim>\<open>duration === '30s' ? 75 : duration === '60s' ? 150 : 225\<close> (remote), with the
  keys \<^verbatim>\<open>'30'\<close> and \<^verbatim>\<open>'60'\<close> in the local variant.\<close>

definition wordCount_remote :: "jsval \<Rightarrow> nat" where
  "wordCount_remote duration =
     (if duration = Str ''30s'' then 75 else if duration = Str ''60s'' then 150 else 225)"

definition wordCount_local :: "jsval \<Rightarrow> nat" where
  "wordCount_local duration =
     (if duration = Str ''30'' then 75 else if duration = Str ''60'' then 150 else 225)"

text \<open>\<^verbatim>\<open>VOICE_IDS[voiceType] || VOICE_IDS['female_1']\<close>.\<close>

definition voiceId_remote :: "jsval \<Rightarrow> jsval" where
  "voiceId_remote voiceType =
     js_or (js_get VOICE_IDS_remote voiceType) (js_get VOICE_IDS_remote (Str ''female_1''))"

definition voiceId_local :: "jsval \<Rightarrow> jsval" where
  "voiceId_local voiceType =
     js_or (js_get VOICE_IDS_local voiceType) (js_get VOICE_IDS_local (Str ''female_1''))"

text \<open>\<^verbatim>\<open>searchTerms[template] || searchTerms['default']\<close>.\<close>

definition query_local :: "jsval \<Rightarrow> jsval" where
  "query_local template = js_or (js_get searchTerms template) (js_get searchTerms (Str ''default''))"

section \<open>Errors and the outside world\<close>

text \<open>A thrown \<^verbatim>\<open>Error\<close> object; \<open>message\<close> is its \<^verbatim>\<open>.message\<close>.\<close>

datatype error = Error (message: string)

text \<open>
  What one provider round trip yields: \<open>Threw e\<close> when the \<^verbatim>\<open>fetch\<close>, the body read or a
  field access on the decoded body rejects with \<open>e\<close>; \<open>NotOk body\<close> when
  \<^verbatim>\<open>response.ok\<close> is false, with the response text; \<open>Ok x\<close> with the decoded payload
  otherwise.
\<close>

datatype 'a reply = Threw error | NotOk string | Ok 'a

type_synonym bytes = "nat list"

datatype jsnum = NaN | PosInfinity | NegInfinity | Finite real

record video_file =
  quality :: string
  link :: string

record video =
  video_id :: nat
  video_files :: "video_file list"
  video_duration :: nat

record clip =
  clip_id :: nat
  url :: jsval
  clip_duration :: nat

text \<open>One entry of the Shotstack timeline (\<^verbatim>\<open>trim: 0\<close>, \<^verbatim>\<open>fit: 'cover'\<close> are constant).\<close>

record render_clip =
  src :: jsval
  start :: nat
  clip_length :: nat

record render_status =
  rstatus :: string
  result_url :: jsval

text \<open>The two command lines handed to \<^verbatim>\<open>execPromise\<close>, by the values interpolated into
  them: \<open>Ffprobe audioPath\<close>; \<open>Ffmpeg videoPath audioPath t outputPath\<close>, where \<open>t\<close> is
  the argument of \<^verbatim>\<open>-t\<close>.\<close>

datatype command = Ffprobe string | Ffmpeg string string jsnum string

text \<open>
  Everything outside the process, as oracles. \<open>openai system user\<close> answers the chat
  request with the message content; \<open>elevenlabs url text model\<close> the synthesis request;
  \<open>pexels query\<close> the video search for \<open>query\<close> (the text before
  \<^verbatim>\<open>encodeURIComponent\<close>), with the \<^verbatim>\<open>videos\<close> field of the body (\<open>None\<close> when the body
  has none); \<open>shotstack_render\<close> the render submission, with the render id;
  \<open>shotstack_status id i\<close> the status read of poll attempt \<open>i\<close>; \<open>download\<close> fetches a
  file body; \<open>writeFileSync\<close> returns the error it throws, if any; \<open>random_index n\<close>
  stands for \<^verbatim>\<open>Math.floor(Math.random() * n)\<close> and is reduced modulo \<open>n\<close> where it is
  used, so that it is an index below \<open>n\<close>; \<open>execPromise c k\<close> is the \<open>k\<close>-th run of
  command \<open>c\<close> (its stdout, or the rejection); \<open>parseFloat\<close> is
  \<^verbatim>\<open>parseFloat(stdout.trim())\<close>.
\<close>

record world =
  openai :: "string \<Rightarrow> string \<Rightarrow> string reply"
  elevenlabs :: "string \<Rightarrow> string \<Rightarrow> string \<Rightarrow> bytes reply"
  pexels :: "string \<Rightarrow> video list option reply"
  shotstack_render :: "render_clip list \<Rightarrow> string reply"
  shotstack_status :: "string \<Rightarrow> nat \<Rightarrow> error + render_status"
  download :: "string \<Rightarrow> error + bytes"
  writeFileSync :: "string \<Rightarrow> bytes \<Rightarrow> error option"
  random_index :: "nat \<Rightarrow> nat"
  execPromise :: "command \<Rightarrow> nat \<Rightarrow> error + string"
  parseFloat :: "string \<Rightarrow> jsnum"

definition TEMP_DIR :: string where
  "TEMP_DIR = ''./temp''"

section \<open>Provider adapters\<close>

subsection \<open>Script generation\<close>

definition system_prompt_remote :: "nat \<Rightarrow> string" where
  "system_prompt_remote wordCount =
     ''You are a viral short-form video scriptwriter. Write engaging scripts for TikTok/Reels/Shorts. Start with a hook. Keep it around ''
     @ decimal wordCount @ '' words. No emojis. Just spoken words.''"

definition system_prompt_local :: "nat \<Rightarrow> string" where
  "system_prompt_local wordCount =
     ''You are a viral TikTok script writer. Write engaging, hook-driven scripts that capture attention in the first 2 seconds. Keep it around ''
     @ decimal wordCount @ '' words. No hashtags, no emojis, just the spoken script.''"

definition generateScript_remote :: "world \<Rightarrow> jsval \<Rightarrow> jsval \<Rightarrow> error + string" where
  "generateScript_remote w topic dur =
     (let wordCount = wordCount_remote dur in
      case openai w (system_prompt_remote wordCount) (''Write a script about: '' @ to_string topic) of
        Threw e \<Rightarrow> Inl e
      | NotOk err \<Rightarrow> Inl (Error (''OpenAI error: '' @ err))
      | Ok content \<Rightarrow> Inr content)"

definition generateScript_local :: "world \<Rightarrow> jsval \<Rightarrow> jsval \<Rightarrow> error + string" where
  "generateScript_local w topic dur =
     (let wordCount = wordCount_local dur in
      case openai w (system_prompt_local wordCount) (''Write a TikTok script about: '' @ to_string topic) of
        Threw e \<Rightarrow> Inl e
      | NotOk err \<Rightarrow> Inl (Error (''OpenAI error: '' @ err))
      | Ok content \<Rightarrow> Inr content)"

subsection \<open>Voice synthesis\<close>

definition voice_url :: "jsval \<Rightarrow> string" where
  "voice_url voiceId = ''https://api.elevenlabs.io/v1/text-to-speech/'' @ to_string voiceId"

definition generateVoice_remote :: "world \<Rightarrow> string \<Rightarrow> jsval \<Rightarrow> error + bytes" where
  "generateVoice_remote w text voiceType =
     (let voiceId = voiceId_remote voiceType in
      case elevenlabs w (voice_url voiceId) text ''eleven_monolingual_v1'' of
        Threw e \<Rightarrow> Inl e
      | NotOk err \<Rightarrow> Inl (Error (''ElevenLabs error: '' @ err))
      | Ok buf \<Rightarrow> Inr buf)"

definition generateVoice_local :: "world \<Rightarrow> string \<Rightarrow> jsval \<Rightarrow> error + bytes" where
  "generateVoice_local w text voiceType =
     (let voiceId = voiceId_local voiceType in
      case elevenlabs w (voice_url voiceId) text ''eleven_multilingual_v2'' of
        Threw e \<Rightarrow> Inl e
      | NotOk err \<Rightarrow> Inl (Error (''ElevenLabs error: '' @ err))
      | Ok buf \<Rightarrow> Inr buf)"

subsection \<open>Stock footage\<close>

text \<open>\<^verbatim>\<open>s.split(' ')\<close>: the pieces between single spaces, empty pieces included.\<close>

fun split_space :: "string \<Rightarrow> string list" where
  "split_space [] = [[]]"
| "split_space (c # cs) =
     (if c = CHR '' '' then [] # split_space cs
      else (case split_space cs of
              [] \<Rightarrow> [[c]]
            | word # rest \<Rightarrow> (c # word) # rest))"

text \<open>\<^verbatim>\<open>words.join(' ')\<close>.\<close>

fun join_space :: "string list \<Rightarrow> string" where
  "join_space [] = []"
| "join_space [word] = word"
| "join_space (word # rest) = word @ '' '' @ join_space rest"

text \<open>The remote variant's search query, from the generated script:
  \<^verbatim>\<open>script.split(' ').filter(word => word.length > 5).slice(0, 3).join(' ') || 'business technology'\<close>.\<close>

definition keywords_remote :: "string \<Rightarrow> string" where
  "keywords_remote text =
     (let keywords = join_space (take 3 (filter (\<lambda>word. length word > 5) (split_space text)))
      in if keywords = [] then ''business technology'' else keywords)"

text \<open>\<^verbatim>\<open>video_files.find(f => f.quality === 'hd')?.link || video_files[0]?.link\<close>.\<close>

definition clip_url :: "video_file list \<Rightarrow> jsval" where
  "clip_url files =
     js_or (case find (\<lambda>f. quality f = ''hd'') files of None \<Rightarrow> Undefined | Some f \<Rightarrow> Str (link f))
           (case files of [] \<Rightarrow> Undefined | f # _ \<Rightarrow> Str (link f))"

definition fetchStockFootage_remote :: "world \<Rightarrow> string \<Rightarrow> error + clip list" where
  "fetchStockFootage_remote w text =
     (let keywords = keywords_remote text in
      case pexels w keywords of
        Threw e \<Rightarrow> Inl e
      | NotOk err \<Rightarrow> Inl (Error (''Pexels error: '' @ err))
      | Ok None \<Rightarrow> Inl (Error ''Cannot read properties of undefined (reading 'map')'')
      | Ok (Some videos) \<Rightarrow>
          Inr (map (\<lambda>v. \<lparr>clip_id = video_id v, url = clip_url (video_files v),
                          clip_duration = video_duration v\<rparr>) videos))"

text \<open>The local variant searches by template, picks one result at random, downloads its
  file and writes it under \<^verbatim>\<open>TEMP_DIR\<close>. Its \<^verbatim>\<open>duration\<close> parameter is not used.\<close>

definition fetchStockFootage_local :: "world \<Rightarrow> jsval \<Rightarrow> jsnum \<Rightarrow> string \<Rightarrow> error + string" where
  "fetchStockFootage_local w tmpl dur jobId =
     (let query = query_local tmpl in
      case pexels w (to_string query) of
        Threw e \<Rightarrow> Inl e
      | NotOk err \<Rightarrow> Inl (Error ''Failed to fetch stock footage'')
      | Ok None \<Rightarrow> Inl (Error ''No stock footage found'')
      | Ok (Some videos) \<Rightarrow>
          if length videos = 0 then Inl (Error ''No stock footage found'')
          else
            let randomVideo = videos ! (random_index w (length videos) mod length videos) in
            case (case find (\<lambda>f. quality f = ''hd'') (video_files randomVideo) of
                    Some f \<Rightarrow> Some f
                  | None \<Rightarrow> (case video_files randomVideo of [] \<Rightarrow> None | f # _ \<Rightarrow> Some f)) of
              None \<Rightarrow> Inl (Error ''Cannot read properties of undefined (reading 'link')'')
            | Some videoFile \<Rightarrow>
                (case download w (link videoFile) of
                   Inl e \<Rightarrow> Inl e
                 | Inr videoBuffer \<Rightarrow>
                     let videoPath = TEMP_DIR @ ''/'' @ jobId @ ''-footage.mp4'' in
                     (case writeFileSync w videoPath videoBuffer of
                        Some e \<Rightarrow> Inl e
                      | None \<Rightarrow> Inr videoPath)))"

subsection \<open>Remote assembly: render submission and polling\<close>

text \<open>\<^verbatim>\<open>clips.slice(0, 3).map((clip, index) => ...)\<close>.\<close>

definition videoClips :: "clip list \<Rightarrow> render_clip list" where
  "videoClips cs =
     map (\<lambda>(index, c). \<lparr>src = url c, start = index * 10, clip_length = 10\<rparr>)
         (enumerate 0 (take 3 cs))"

text \<open>
  The poll loop \<^verbatim>\<open>for (let i = 0; i < 60; i++)\<close>, entered at counter \<open>i\<close>. Each pass first
  awaits a timer of 2000 ms, then reads the render status. The result comes with the
  delays of the timers awaited, in order.
\<close>

function poll :: "world \<Rightarrow> string \<Rightarrow> nat \<Rightarrow> (error + jsval) \<times> nat list" where
  "poll w renderId i =
     (if i < 60 then
        (case shotstack_status w renderId i of
           Inl e \<Rightarrow> (Inl e, [2000])
         | Inr statusData \<Rightarrow>
             if rstatus statusData = ''done'' then (Inr (result_url statusData), [2000])
             else if rstatus statusData = ''failed'' then
               (Inl (Error ''Video rendering failed''), [2000])
             else (case poll w renderId (Suc i) of (r, waits) \<Rightarrow> (r, 2000 # waits)))
      else (Inl (Error ''Video rendering timed out''), []))"
  by pat_completeness auto
termination
  by (relation "measure (\<lambda>(w, renderId, i). 60 - i)") auto

declare poll.simps [simp del]

text \<open>Poll attempt \<open>i\<close> reads a status that is neither \<^verbatim>\<open>'done'\<close> nor \<^verbatim>\<open>'failed'\<close>.\<close>

definition pending_at :: "world \<Rightarrow> string \<Rightarrow> nat \<Rightarrow> bool" where
  "pending_at w renderId i =
     (case shotstack_status w renderId i of
        Inl e \<Rightarrow> False
      | Inr statusData \<Rightarrow> rstatus statusData \<noteq> ''done'' \<and> rstatus statusData \<noteq> ''failed'')"

text \<open>
  The job object. \<open>job\<close> holds the fields both variants have (\<open>job_id\<close> is the field
  \<^verbatim>\<open>id\<close>), \<open>job_remote\<close> and \<open>job_local\<close> add those of one variant. A property the
  object does not have yet reads as \<^verbatim>\<open>undefined\<close>: \<open>Undefined\<close>, or \<open>None\<close> where the
  field holds a buffer, a clip list or the \<^verbatim>\<open>hasAudio\<close> flag.
\<close>

record job =
  job_id :: string
  status :: string
  statusMessage :: string
  template :: jsval
  voice :: jsval
  duration :: jsval
  createdAt :: nat
  generatedScript :: jsval
  hasAudio :: "bool option"
  videoUrl :: jsval

record job_remote = job +
  inputScript :: jsval
  audioBuffer :: "bytes option"
  clips :: "clip list option"

record job_local = job +
  script :: jsval
  audioPath :: jsval
  footagePath :: jsval
  finalVideoPath :: jsval

definition assembleVideo :: "world \<Rightarrow> job_remote \<Rightarrow> error + jsval" where
  "assembleVideo w j =
     (let cs = (case clips j of None \<Rightarrow> [] | Some cs \<Rightarrow> cs) in
      if length cs = 0 then Inl (Error ''No video clips found'')
      else
        case shotstack_render w (videoClips cs) of
          Threw e \<Rightarrow> Inl e
        | NotOk err \<Rightarrow> Inl (Error (''Shotstack render error: '' @ err))
        | Ok renderId \<Rightarrow> fst (poll w renderId 0))"

subsection \<open>Local assembly: probe and mux\<close>

text \<open>\<open>k\<close> numbers the runs of the probe on one file: \<open>0\<close> is the orchestrator's call,
  \<open>1\<close> the call inside \<open>combineAudioVideo\<close>.\<close>

definition getAudioDuration :: "world \<Rightarrow> nat \<Rightarrow> string \<Rightarrow> jsnum" where
  "getAudioDuration w k path =
     (case execPromise w (Ffprobe path) k of
        Inr stdout \<Rightarrow> parseFloat w stdout
      | Inl e \<Rightarrow> Finite 30)"

definition combineAudioVideo :: "world \<Rightarrow> string \<Rightarrow> string \<Rightarrow> string \<Rightarrow> error + string" where
  "combineAudioVideo w aPath vPath jobId =
     (let outputPath = TEMP_DIR @ ''/'' @ jobId @ ''-final.mp4'';
          audioDuration = getAudioDuration w 1 aPath;
          ffmpegCommand = Ffmpeg vPath aPath audioDuration outputPath
      in case execPromise w ffmpegCommand 0 of
           Inr out \<Rightarrow> Inr outputPath
         | Inl e \<Rightarrow> Inl (Error ''Failed to combine audio and video''))"

section \<open>Pipeline orchestrator\<close>

text \<open>
  \<open>processVideo\<close> is an \<^verbatim>\<open>async\<close> function: it runs until its next \<^verbatim>\<open>await\<close>, returns
  control, and is resumed when the awaited adapter call settles. The model cuts it at its
  \<^verbatim>\<open>await\<close>s. A task names the \<^verbatim>\<open>await\<close> the function is suspended at, with the local
  variables the rest of the body still reads. Between two cuts nothing else runs, so the
  job records a poller can see are those at the cuts.
\<close>

datatype rtask =
    RAwaitScript
  | RAwaitVoice string
  | RAwaitFootage string
  | RAwaitAssembly
  | RFinished

datatype ltask =
    LAwaitScript
  | LAwaitVoice string
  | LAwaitProbe string
  | LAwaitFootage string jsnum
  | LAwaitAssembly string string
  | LFinished

text \<open>The \<^verbatim>\<open>catch\<close> block, the same in both variants.\<close>

definition catch_error :: "error \<Rightarrow> 'a job_scheme \<Rightarrow> 'a job_scheme" where
  "catch_error e j = j\<lparr>status := ''failed'', statusMessage := ''Error: '' @ message e\<rparr>"

subsection \<open>Remote variant\<close>

text \<open>From the call to the first \<^verbatim>\<open>await\<close>.\<close>

definition processVideo_start_remote :: "job_remote \<Rightarrow> job_remote \<times> rtask" where
  "processVideo_start_remote j =
     (j\<lparr>status := ''generating_script'', statusMessage := ''AI is writing your script...''\<rparr>,
      RAwaitScript)"

text \<open>From one \<^verbatim>\<open>await\<close> to the next, or to the end of the function.\<close>

fun processVideo_resume_remote :: "world \<Rightarrow> job_remote \<times> rtask \<Rightarrow> job_remote \<times> rtask" where
  "processVideo_resume_remote w (j, RAwaitScript) =
     (case generateScript_remote w (inputScript j) (duration j) of
        Inl e \<Rightarrow> (catch_error e j, RFinished)
      | Inr text \<Rightarrow>
          (j\<lparr>generatedScript := Str text, status := ''generating_voice'',
              statusMessage := ''Creating AI voiceover...''\<rparr>,
           RAwaitVoice text))"
| "processVideo_resume_remote w (j, RAwaitVoice text) =
     (case generateVoice_remote w text (voice j) of
        Inl e \<Rightarrow> (catch_error e j, RFinished)
      | Inr buf \<Rightarrow>
          (j\<lparr>audioBuffer := Some buf, hasAudio := Some True, status := ''fetching_footage'',
              statusMessage := ''Finding perfect video clips...''\<rparr>,
           RAwaitFootage text))"
| "processVideo_resume_remote w (j, RAwaitFootage text) =
     (case fetchStockFootage_remote w text of
        Inl e \<Rightarrow> (catch_error e j, RFinished)
      | Inr cs \<Rightarrow>
          (j\<lparr>clips := Some cs, status := ''assembling_video'',
              statusMessage := ''Assembling your video...''\<rparr>,
           RAwaitAssembly))"
| "processVideo_resume_remote w (j, RAwaitAssembly) =
     (case assembleVideo w j of
        Inl e \<Rightarrow> (catch_error e j, RFinished)
      | Inr u \<Rightarrow>
          (j\<lparr>videoUrl := u, status := ''completed'', statusMessage := ''Your video is ready!''\<rparr>,
           RFinished))"
| "processVideo_resume_remote w (j, RFinished) = (j, RFinished)"

fun rtask_rank :: "rtask \<Rightarrow> nat" where
  "rtask_rank RAwaitScript = 0"
| "rtask_rank (RAwaitVoice text) = 1"
| "rtask_rank (RAwaitFootage text) = 2"
| "rtask_rank RAwaitAssembly = 3"
| "rtask_rank RFinished = 4"

text \<open>The run of the function from a cut on: the job record and task at this cut and at
  every later one, until the function has returned.\<close>

function run_remote :: "world \<Rightarrow> job_remote \<times> rtask \<Rightarrow> (job_remote \<times> rtask) list" where
  "run_remote w (j, t) =
     (if t = RFinished then [(j, t)]
      else (j, t) # run_remote w (processVideo_resume_remote w (j, t)))"
  by pat_completeness auto
termination
  apply (relation "measure (\<lambda>(w, j, t). 4 - rtask_rank t)")
   apply simp
  subgoal for w j t by (cases t) (auto split: sum.splits)
  done

declare run_remote.simps [simp del]

text \<open>The error thrown inside the \<^verbatim>\<open>try\<close> block while the function is suspended at a
  cut, if one is: the rejection of the adapter call awaited there.\<close>

fun thrown_remote :: "world \<Rightarrow> job_remote \<times> rtask \<Rightarrow> error option" where
  "thrown_remote w (j, RAwaitScript) =
     (case generateScript_remote w (inputScript j) (duration j) of
        Inl e \<Rightarrow> Some e | Inr text \<Rightarrow> None)"
| "thrown_remote w (j, RAwaitVoice text) =
     (case generateVoice_remote w text (voice j) of Inl e \<Rightarrow> Some e | Inr buf \<Rightarrow> None)"
| "thrown_remote w (j, RAwaitFootage text) =
     (case fetchStockFootage_remote w text of Inl e \<Rightarrow> Some e | Inr cs \<Rightarrow> None)"
| "thrown_remote w (j, RAwaitAssembly) =
     (case assembleVideo w j of Inl e \<Rightarrow> Some e | Inr u \<Rightarrow> None)"
| "thrown_remote w (j, RFinished) = None"

text \<open>The artifact fields written by the stage awaited at a cut and by the stages after
  it still hold what the create handler put there.\<close>

fun unpopulated_remote :: "rtask \<Rightarrow> job_remote \<Rightarrow> bool" where
  "unpopulated_remote RAwaitScript j =
     (generatedScript j = Null \<and> audioBuffer j = None \<and> hasAudio j = Some False
      \<and> clips j = None \<and> videoUrl j = Null)"
| "unpopulated_remote (RAwaitVoice text) j =
     (audioBuffer j = None \<and> hasAudio j = Some False \<and> clips j = None \<and> videoUrl j = Null)"
| "unpopulated_remote (RAwaitFootage text) j = (clips j = None \<and> videoUrl j = Null)"
| "unpopulated_remote RAwaitAssembly j = (videoUrl j = Null)"
| "unpopulated_remote RFinished j = True"

subsection \<open>Local variant\<close>

definition processVideo_start_local :: "job_local \<Rightarrow> job_local \<times> ltask" where
  "processVideo_start_local j =
     (j\<lparr>status := ''generating_script'', statusMessage := ''Creating AI script...''\<rparr>,
      LAwaitScript)"

fun processVideo_resume_local ::
  "world \<Rightarrow> string \<Rightarrow> job_local \<times> ltask \<Rightarrow> job_local \<times> ltask" where
  "processVideo_resume_local w jobId (j, LAwaitScript) =
     (case generateScript_local w (script j) (duration j) of
        Inl e \<Rightarrow> (catch_error e j, LFinished)
      | Inr text \<Rightarrow>
          (j\<lparr>generatedScript := Str text, status := ''generating_voice'',
              statusMessage := ''Creating AI voiceover...''\<rparr>,
           LAwaitVoice text))"
| "processVideo_resume_local w jobId (j, LAwaitVoice text) =
     (case generateVoice_local w text (voice j) of
        Inl e \<Rightarrow> (catch_error e j, LFinished)
      | Inr buf \<Rightarrow>
          let aPath = TEMP_DIR @ ''/'' @ jobId @ ''-audio.mp3'' in
          (case writeFileSync w aPath buf of
             Some e \<Rightarrow> (catch_error e j, LFinished)
           | None \<Rightarrow> (j\<lparr>audioPath := Str aPath, hasAudio := Some True\<rparr>, LAwaitProbe aPath)))"
| "processVideo_resume_local w jobId (j, LAwaitProbe aPath) =
     (let audioDuration = getAudioDuration w 0 aPath in
      (j\<lparr>status := ''fetching_footage'', statusMessage := ''Finding perfect footage...''\<rparr>,
       LAwaitFootage aPath audioDuration))"
| "processVideo_resume_local w jobId (j, LAwaitFootage aPath audioDuration) =
     (case fetchStockFootage_local w (template j) audioDuration jobId of
        Inl e \<Rightarrow> (catch_error e j, LFinished)
      | Inr vPath \<Rightarrow>
          (j\<lparr>footagePath := Str vPath, status := ''assembling_video'',
              statusMessage := ''Assembling your video...''\<rparr>,
           LAwaitAssembly aPath vPath))"
| "processVideo_resume_local w jobId (j, LAwaitAssembly aPath vPath) =
     (case combineAudioVideo w aPath vPath jobId of
        Inl e \<Rightarrow> (catch_error e j, LFinished)
      | Inr fPath \<Rightarrow>
          (j\<lparr>finalVideoPath := Str fPath, status := ''completed'',
              statusMessage := ''Your video is ready!'',
              videoUrl := Str (''/api/videos/'' @ jobId @ ''/download'')\<rparr>,
           LFinished))"
| "processVideo_resume_local w jobId (j, LFinished) = (j, LFinished)"

fun ltask_rank :: "ltask \<Rightarrow> nat" where
  "ltask_rank LAwaitScript = 0"
| "ltask_rank (LAwaitVoice text) = 1"
| "ltask_rank (LAwaitProbe aPath) = 2"
| "ltask_rank (LAwaitFootage aPath d) = 3"
| "ltask_rank (LAwaitAssembly aPath vPath) = 4"
| "ltask_rank LFinished = 5"

function run_local ::
  "world \<Rightarrow> string \<Rightarrow> job_local \<times> ltask \<Rightarrow> (job_local \<times> ltask) list" where
  "run_local w jobId (j, t) =
     (if t = LFinished then [(j, t)]
      else (j, t) # run_local w jobId (processVideo_resume_local w jobId (j, t)))"
  by pat_completeness auto
termination
  apply (relation "measure (\<lambda>(w, jobId, j, t). 5 - ltask_rank t)")
   apply simp
  subgoal for w jobId j t by (cases t) (auto simp: Let_def split: sum.splits option.splits)
  done

declare run_local.simps [simp del]

text \<open>In the voice stage the file write follows the adapter call inside the same
  \<^verbatim>\<open>try\<close>; the duration probe catches its own errors.\<close>

fun thrown_local :: "world \<Rightarrow> string \<Rightarrow> job_local \<times> ltask \<Rightarrow> error option" where
  "thrown_local w jobId (j, LAwaitScript) =
     (case generateScript_local w (script j) (duration j) of
        Inl e \<Rightarrow> Some e | Inr text \<Rightarrow> None)"
| "thrown_local w jobId (j, LAwaitVoice text) =
     (case generateVoice_local w text (voice j) of
        Inl e \<Rightarrow> Some e
      | Inr buf \<Rightarrow> writeFileSync w (TEMP_DIR @ ''/'' @ jobId @ ''-audio.mp3'') buf)"
| "thrown_local w jobId (j, LAwaitProbe aPath) = None"
| "thrown_local w jobId (j, LAwaitFootage aPath audioDuration) =
     (case fetchStockFootage_local w (template j) audioDuration jobId of
        Inl e \<Rightarrow> Some e | Inr vPath \<Rightarrow> None)"
| "thrown_local w jobId (j, LAwaitAssembly aPath vPath) =
     (case combineAudioVideo w aPath vPath jobId of Inl e \<Rightarrow> Some e | Inr fPath \<Rightarrow> None)"
| "thrown_local w jobId (j, LFinished) = None"

fun unpopulated_local :: "ltask \<Rightarrow> job_local \<Rightarrow> bool" where
  "unpopulated_local LAwaitScript j =
     (generatedScript j = Undefined \<and> audioPath j = Undefined \<and> hasAudio j = None
      \<and> footagePath j = Undefined \<and> finalVideoPath j = Undefined \<and> videoUrl j = Undefined)"
| "unpopulated_local (LAwaitVoice text) j =
     (audioPath j = Undefined \<and> hasAudio j = None \<and> footagePath j = Undefined
      \<and> finalVideoPath j = Undefined \<and> videoUrl j = Undefined)"
| "unpopulated_local (LAwaitProbe aPath) j =
     (footagePath j = Undefined \<and> finalVideoPath j = Undefined \<and> videoUrl j = Undefined)"
| "unpopulated_local (LAwaitFootage aPath audioDuration) j =
     (footagePath j = Undefined \<and> finalVideoPath j = Undefined \<and> videoUrl j = Undefined)"
| "unpopulated_local (LAwaitAssembly aPath vPath) j =
     (finalVideoPath j = Undefined \<and> videoUrl j = Undefined)"
| "unpopulated_local LFinished j = True"

text \<open>The status values a poller reads off the job records of a run, repeated readings
  of one value merged.\<close>

definition status_changes :: "'a job_scheme list \<Rightarrow> string list" where
  "status_changes js = remdups_adj (map status js)"

section \<open>Job store and HTTP handlers\<close>

text \<open>
  The process state: \<open>jobs\<close> is the \<^verbatim>\<open>Map\<close> from job id to job record; \<open>pending\<close> holds,
  for each job, the cut its \<open>processVideo\<close> call is suspended at. Job ids are taken to
  be distinct, so the record a pipeline run holds is the one the store maps its id to.
\<close>

record ('j, 't) server =
  jobs :: "string \<rightharpoonup> 'j"
  pending :: "string \<rightharpoonup> 't"

text \<open>The fields the create handler reads from \<^verbatim>\<open>req.body\<close>.\<close>

record body =
  body_script :: jsval
  body_template :: jsval
  body_voice :: jsval
  body_duration :: jsval

text \<open>
  What a handler sends: \<open>JsonError code msg\<close> is \<^verbatim>\<open>res.status(code).json({ error: msg })\<close>;
  \<open>JsonCreated jobId status\<close> is \<^verbatim>\<open>res.json({ jobId, status })\<close>; \<open>JsonJob j\<close> is
  \<^verbatim>\<open>res.json\<close> of a job record; \<open>SendAudio\<close> sends a buffer as \<^verbatim>\<open>audio/mpeg\<close>;
  \<open>Redirect\<close> is \<^verbatim>\<open>res.redirect\<close>; \<open>SendFile type path\<close> and
  \<open>SendAttachment type disposition path\<close> are \<^verbatim>\<open>res.sendFile\<close> with the headers set
  before it.
\<close>

datatype 'j response =
    JsonError nat string
  | JsonCreated string string
  | JsonJob 'j
  | SendAudio bytes
  | Redirect jsval
  | SendFile string string
  | SendAttachment string string string

subsection \<open>Remote variant\<close>

definition new_job_remote :: "string \<Rightarrow> nat \<Rightarrow> body \<Rightarrow> job_remote" where
  "new_job_remote jobId now b =
     \<lparr>job_id = jobId, status = ''queued'', statusMessage = ''Video job created...'',
      template = body_template b, voice = body_voice b, duration = body_duration b,
      createdAt = now, generatedScript = Null, hasAudio = Some False, videoUrl = Null,
      inputScript = body_script b, audioBuffer = None, clips = None\<rparr>"

text \<open>The call \<^verbatim>\<open>processVideo(jobId)\<close> as the caller sees it: the body runs to its first
  \<^verbatim>\<open>await\<close> and the call returns. With no such job the body throws and nothing is
  written.\<close>

definition processVideo_remote ::
  "string \<Rightarrow> (job_remote, rtask) server \<Rightarrow> (job_remote, rtask) server" where
  "processVideo_remote jobId srv =
     (case jobs srv jobId of
        None \<Rightarrow> srv
      | Some j \<Rightarrow>
          (case processVideo_start_remote j of
             (j', t) \<Rightarrow> srv\<lparr>jobs := (jobs srv)(jobId \<mapsto> j'), pending := (pending srv)(jobId \<mapsto> t)\<rparr>))"

text \<open>The event loop resumes the suspended call of one job.\<close>

definition tick_remote ::
  "world \<Rightarrow> string \<Rightarrow> (job_remote, rtask) server \<Rightarrow> (job_remote, rtask) server" where
  "tick_remote w jobId srv =
     (case (jobs srv jobId, pending srv jobId) of
        (Some j, Some t) \<Rightarrow>
          (case processVideo_resume_remote w (j, t) of
             (j', t') \<Rightarrow> srv\<lparr>jobs := (jobs srv)(jobId \<mapsto> j'), pending := (pending srv)(jobId \<mapsto> t')\<rparr>)
      | _ \<Rightarrow> srv)"

text \<open>\<^verbatim>\<open>POST /api/videos/create\<close>; \<open>jobId\<close> is the value of \<^verbatim>\<open>uuidv4()\<close>, \<open>now\<close> of
  \<^verbatim>\<open>new Date()\<close>. The id is drawn at random by the uuid library and the handler stores
  the record under it with \<^verbatim>\<open>jobs.set\<close>, without looking whether the store has that key.
  No statement of the \<^verbatim>\<open>try\<close> body throws, so the handler's \<^verbatim>\<open>catch\<close> is not
  entered.\<close>

definition create_remote ::
  "string \<Rightarrow> nat \<Rightarrow> body \<Rightarrow> (job_remote, rtask) server
     \<Rightarrow> (job_remote, rtask) server \<times> job_remote response" where
  "create_remote jobId now b srv =
     (let j = new_job_remote jobId now b;
          srv1 = srv\<lparr>jobs := (jobs srv)(jobId \<mapsto> j)\<rparr>;
          srv2 = processVideo_remote jobId srv1
      in (srv2, JsonCreated jobId ''queued''))"

definition getStatus_remote :: "(job_remote, rtask) server \<Rightarrow> string \<Rightarrow> job_remote response" where
  "getStatus_remote srv jobId =
     (case jobs srv jobId of
        None \<Rightarrow> JsonError 404 ''Job not found''
      | Some j \<Rightarrow> JsonJob (j\<lparr>audioBuffer := None\<rparr>))"

definition getAudio_remote :: "(job_remote, rtask) server \<Rightarrow> string \<Rightarrow> job_remote response" where
  "getAudio_remote srv jobId =
     (case jobs srv jobId of
        None \<Rightarrow> JsonError 404 ''Audio not found''
      | Some j \<Rightarrow>
          (case audioBuffer j of
             None \<Rightarrow> JsonError 404 ''Audio not found''
           | Some buf \<Rightarrow> SendAudio buf))"

definition download_remote :: "(job_remote, rtask) server \<Rightarrow> string \<Rightarrow> job_remote response" where
  "download_remote srv jobId =
     (case jobs srv jobId of
        None \<Rightarrow> JsonError 404 ''Video not ready''
      | Some j \<Rightarrow>
          if \<not> truthy (videoUrl j) then JsonError 404 ''Video not ready''
          else Redirect (videoUrl j))"

subsection \<open>Local variant\<close>

definition new_job_local :: "string \<Rightarrow> nat \<Rightarrow> body \<Rightarrow> job_local" where
  "new_job_local jobId now b =
     \<lparr>job_id = jobId, status = ''pending'', statusMessage = ''Starting video generation...'',
      template = body_template b, voice = body_voice b, duration = body_duration b,
      createdAt = now, generatedScript = Undefined, hasAudio = None, videoUrl = Undefined,
      script = body_script b, audioPath = Undefined, footagePath = Undefined,
      finalVideoPath = Undefined\<rparr>"

definition processVideo_local ::
  "string \<Rightarrow> (job_local, ltask) server \<Rightarrow> (job_local, ltask) server" where
  "processVideo_local jobId srv =
     (case jobs srv jobId of
        None \<Rightarrow> srv
      | Some j \<Rightarrow>
          (case processVideo_start_local j of
             (j', t) \<Rightarrow> srv\<lparr>jobs := (jobs srv)(jobId \<mapsto> j'), pending := (pending srv)(jobId \<mapsto> t)\<rparr>))"

definition tick_local ::
  "world \<Rightarrow> string \<Rightarrow> (job_local, ltask) server \<Rightarrow> (job_local, ltask) server" where
  "tick_local w jobId srv =
     (case (jobs srv jobId, pending srv jobId) of
        (Some j, Some t) \<Rightarrow>
          (case processVideo_resume_local w jobId (j, t) of
             (j', t') \<Rightarrow> srv\<lparr>jobs := (jobs srv)(jobId \<mapsto> j'), pending := (pending srv)(jobId \<mapsto> t')\<rparr>)
      | _ \<Rightarrow> srv)"

definition create_local ::
  "string \<Rightarrow> nat \<Rightarrow> body \<Rightarrow> (job_local, ltask) server
     \<Rightarrow> (job_local, ltask) server \<times> job_local response" where
  "create_local jobId now b srv =
     (let j = new_job_local jobId now b;
          srv1 = srv\<lparr>jobs := (jobs srv)(jobId \<mapsto> j)\<rparr>;
          srv2 = processVideo_local jobId srv1
      in (srv2, JsonCreated jobId ''pending''))"

definition getStatus_local :: "(job_local, ltask) server \<Rightarrow> string \<Rightarrow> job_local response" where
  "getStatus_local srv jobId =
     (case jobs srv jobId of
        None \<Rightarrow> JsonError 404 ''Job not found''
      | Some j \<Rightarrow> JsonJob j)"

definition getAudio_local :: "(job_local, ltask) server \<Rightarrow> string \<Rightarrow> job_local response" where
  "getAudio_local srv jobId =
     (case jobs srv jobId of
        None \<Rightarrow> JsonError 404 ''Audio not found''
      | Some j \<Rightarrow>
          if \<not> truthy (audioPath j) then JsonError 404 ''Audio not found''
          else SendFile ''audio/mpeg'' (to_string (audioPath j)))"

definition download_local :: "(job_local, ltask) server \<Rightarrow> string \<Rightarrow> job_local response" where
  "download_local srv jobId =
     (case jobs srv jobId of
        None \<Rightarrow> JsonError 404 ''Video not found''
      | Some j \<Rightarrow>
          if \<not> truthy (finalVideoPath j) then JsonError 404 ''Video not found''
          else SendAttachment ''video/mp4''
                 (''attachment; filename='' @ [CHR 0x22] @ ''tiktap-video-'' @ job_id j
                  @ ''.mp4'' @ [CHR 0x22])
                 (to_string (finalVideoPath j)))"

section \<open>A sample world and request\<close>

text \<open>Every provider answers; the render is done at the third status read.\<close>

definition sample_world :: world where
  "sample_world =
     \<lparr>openai = (\<lambda>system user. Ok ''Discover amazing coffee brewing secrets today''),
      elevenlabs = (\<lambda>u text model. Ok [73, 68, 51]),
      pexels = (\<lambda>query. Ok (Some
        [\<lparr>video_id = 7,
          video_files = [\<lparr>quality = ''sd'', link = ''https://videos.example/7-sd.mp4''\<rparr>,
                         \<lparr>quality = ''hd'', link = ''https://videos.example/7-hd.mp4''\<rparr>],
          video_duration = 12\<rparr>])),
      shotstack_render = (\<lambda>payload. Ok ''r-1''),
      shotstack_status = (\<lambda>renderId i.
        Inr (if i < 2 then \<lparr>rstatus = ''rendering'', result_url = Undefined\<rparr>
             else \<lparr>rstatus = ''done'', result_url = Str ''https://cdn.example/r-1.mp4''\<rparr>)),
      download = (\<lambda>u. Inr [0, 0, 1]),
      writeFileSync = (\<lambda>path buf. None),
      random_index = (\<lambda>n. 0),
      execPromise = (\<lambda>c k. Inr ''12.5''),
      parseFloat = (\<lambda>stdout. Finite 12.5)\<rparr>"

definition sample_body :: body where
  "sample_body =
     \<lparr>body_script = Str ''coffee brewing'', body_template = Str ''fitness'',
      body_voice = Str ''female_2'', body_duration = Str ''30s''\<rparr>"

definition sample_script :: string where
  "sample_script = ''Discover amazing coffee brewing secrets today''"

text \<open>The sample world with a voice provider that refuses, and with a footage provider
  that finds nothing.\<close>

definition mute_world :: world where
  "mute_world = sample_world\<lparr>elevenlabs := (\<lambda>u text model. NotOk ''quota exceeded'')\<rparr>"

definition barren_world :: world where
  "barren_world = sample_world\<lparr>pexels := (\<lambda>query. Ok (Some []))\<rparr>"

definition empty_server :: "('j, 't) server" where
  "empty_server = \<lparr>jobs = Map.empty, pending = Map.empty\<rparr>"

section \<open>Evaluation lemmas\<close>

lemma decimal_75: "decimal 75 = ''75''"
  by code_simp

lemma decimal_150: "decimal 150 = ''150''"
  by code_simp

lemma decimal_225: "decimal 225 = ''225''"
  by code_simp

lemma to_string_simps:
  "to_string (Str s) = s" "to_string Undefined = ''undefined''" "to_string Null = ''null''"
  by (simp_all add: to_string_def)

lemmas lookup_defs = js_get_def js_or_def truthy_def to_string_def object_prototype_keys_def

lemmas adapter_defs =
  generateScript_remote_def generateScript_local_def generateVoice_remote_def
  generateVoice_local_def fetchStockFootage_remote_def fetchStockFootage_local_def
  assembleVideo_def combineAudioVideo_def getAudioDuration_def

lemma new_job_remote_fields:
  "inputScript (new_job_remote jobId now b) = body_script b"
  "duration (new_job_remote jobId now b) = body_duration b"
  "voice (new_job_remote jobId now b) = body_voice b"
  "template (new_job_remote jobId now b) = body_template b"
  by (simp_all add: new_job_remote_def)

lemma new_job_local_fields:
  "script (new_job_local jobId now b) = body_script b"
  "duration (new_job_local jobId now b) = body_duration b"
  "voice (new_job_local jobId now b) = body_voice b"
  "template (new_job_local jobId now b) = body_template b"
  by (simp_all add: new_job_local_def)

lemmas sample_defs =
  sample_world_def sample_body_def mute_world_def barren_world_def sample_script_def
  new_job_remote_def new_job_local_def processVideo_start_remote_def
  processVideo_start_local_def run_remote.simps run_local.simps adapter_defs
  wordCount_remote_def wordCount_local_def voiceId_remote_def voiceId_local_def
  query_local_def keywords_remote_def clip_url_def videoClips_def lookup_defs
  VOICE_IDS_remote_def VOICE_IDS_local_def searchTerms_def TEMP_DIR_def catch_error_def
  status_changes_def poll.simps Let_def

section \<open>Script stage: target word count\<close>

text \<open>
  Claim C8. The script stage maps the duration bucket of the request to the word count
  put into the generation prompt: the short bucket (\<^verbatim>\<open>'30s'\<close> in the remote variant,
  \<^verbatim>\<open>'30'\<close> in the local one) gives 75, the medium bucket (\<^verbatim>\<open>'60s'\<close>, \<^verbatim>\<open>'60'\<close>) gives 150,
  and every other value, the long bucket, gives 225. The chat request is made with the
  system prompt of that count, which spells the count out in decimal.
\<close>

theorem wordCount_buckets:
  "wordCount_remote (Str ''30s'') = 75 \<and> wordCount_remote (Str ''60s'') = 150
   \<and> (d \<noteq> Str ''30s'' \<and> d \<noteq> Str ''60s'' \<longrightarrow> wordCount_remote d = 225)
   \<and> wordCount_local (Str ''30'') = 75 \<and> wordCount_local (Str ''60'') = 150
   \<and> (d \<noteq> Str ''30'' \<and> d \<noteq> Str ''60'' \<longrightarrow> wordCount_local d = 225)
   \<and> generateScript_remote w topic d =
       (case openai w (system_prompt_remote (wordCount_remote d))
                      (''Write a script about: '' @ to_string topic) of
          Threw e \<Rightarrow> Inl e
        | NotOk err \<Rightarrow> Inl (Error (''OpenAI error: '' @ err))
        | Ok content \<Rightarrow> Inr content)
   \<and> generateScript_local w topic d =
       (case openai w (system_prompt_local (wordCount_local d))
                      (''Write a TikTok script about: '' @ to_string topic) of
          Threw e \<Rightarrow> Inl e
        | NotOk err \<Rightarrow> Inl (Error (''OpenAI error: '' @ err))
        | Ok content \<Rightarrow> Inr content)
   \<and> system_prompt_remote 75 = ''You are a viral short-form video scriptwriter. Write engaging scripts for TikTok/Reels/Shorts. Start with a hook. Keep it around 75 words. No emojis. Just spoken words.''
   \<and> system_prompt_remote 150 = ''You are a viral short-form video scriptwriter. Write engaging scripts for TikTok/Reels/Shorts. Start with a hook. Keep it around 150 words. No emojis. Just spoken words.''
   \<and> system_prompt_remote 225 = ''You are a viral short-form video scriptwriter. Write engaging scripts for TikTok/Reels/Shorts. Start with a hook. Keep it around 225 words. No emojis. Just spoken words.''
   \<and> system_prompt_local 75 = ''You are a viral TikTok script writer. Write engaging, hook-driven scripts that capture attention in the first 2 seconds. Keep it around 75 words. No hashtags, no emojis, just the spoken script.''
   \<and> system_prompt_local 150 = ''You are a viral TikTok script writer. Write engaging, hook-driven scripts that capture attention in the first 2 seconds. Keep it around 150 words. No hashtags, no emojis, just the spoken script.''
   \<and> system_prompt_local 225 = ''You are a viral TikTok script writer. Write engaging, hook-driven scripts that capture attention in the first 2 seconds. Keep it around 225 words. No hashtags, no emojis, just the spoken script.''"
  by (simp add: wordCount_remote_def wordCount_local_def generateScript_remote_def
      generateScript_local_def system_prompt_remote_def system_prompt_local_def
      decimal_75 decimal_150 decimal_225)

theorem wordCount_buckets_witness:
  "Str ''90s'' \<noteq> Str ''30s'' \<and> Str ''90s'' \<noteq> Str ''60s'' \<and> wordCount_remote (Str ''90s'') = 225
   \<and> Null \<noteq> Str ''30'' \<and> Null \<noteq> Str ''60'' \<and> wordCount_local Null = 225"
  using wordCount_buckets [of "Str ''90s''"] wordCount_buckets [of Null] by simp

section \<open>Voice stage: resolving the voice key\<close>

lemma voiceId_remote_known:
  "map_of VOICE_IDS_remote k = Some v \<Longrightarrow> voiceId_remote (Str k) = Str v"
  by (auto simp add: voiceId_remote_def lookup_defs VOICE_IDS_remote_def split: if_splits)

lemma voiceId_remote_default:
  "to_string v \<notin> fst ` set VOICE_IDS_remote \<Longrightarrow> to_string v \<notin> set object_prototype_keys \<Longrightarrow>
   voiceId_remote v = Str ''21m00Tcm4TlvDq8ikWAM''"
  by (simp add: voiceId_remote_def js_get_def js_or_def truthy_def VOICE_IDS_remote_def
      to_string_simps)

lemma voiceId_local_default:
  "to_string v \<notin> fst ` set VOICE_IDS_local \<Longrightarrow> to_string v \<notin> set object_prototype_keys \<Longrightarrow>
   voiceId_local v = Str ''EXAVITQu4vr4xnSDxMaL''"
  by (simp add: voiceId_local_def js_get_def js_or_def truthy_def VOICE_IDS_local_def
      to_string_simps)

text \<open>
  Claim C9. A voice key that is not in \<^verbatim>\<open>VOICE_IDS\<close> should resolve to the id of
  \<^verbatim>\<open>female_1\<close>. For the keys \<^verbatim>\<open>'constructor'\<close> and \<^verbatim>\<open>'toString'\<close> the lookup finds
  the member inherited from \<^verbatim>\<open>Object.prototype\<close>, which is truthy, so the default is not
  taken: the voice id is a built-in function, no entry of the table, and the synthesis
  URL ends in the function's source text.
\<close>

theorem voiceId_inherited_name:
  "voiceId_remote (Str ''constructor'') = Builtin ''constructor''
   \<and> voice_url (voiceId_remote (Str ''constructor''))
       = ''https://api.elevenlabs.io/v1/text-to-speech/function Object() { [native code] }''
   \<and> voiceId_local (Str ''toString'') = Builtin ''toString''
   \<and> voice_url (voiceId_local (Str ''toString''))
       = ''https://api.elevenlabs.io/v1/text-to-speech/function toString() { [native code] }''
   \<and> Builtin ''constructor'' \<notin> Str ` snd ` set VOICE_IDS_remote
   \<and> Builtin ''toString'' \<notin> Str ` snd ` set VOICE_IDS_local"
  by (simp add: voiceId_remote_def voiceId_local_def voice_url_def lookup_defs
      VOICE_IDS_remote_def VOICE_IDS_local_def)

section \<open>Footage stage: the search query\<close>

lemma join_space_empty: "join_space ws = [] \<longleftrightarrow> ws = [] \<or> ws = [[]]"
  by (induction ws rule: join_space.induct) auto

lemma long_words_join:
  assumes "\<exists>word \<in> set ws. 5 < length word"
  shows "join_space (take 3 (filter (\<lambda>word. 5 < length word) ws)) \<noteq> []"
proof -
  let ?ls = "filter (\<lambda>word. 5 < length word) ws"
  from assms have ne: "?ls \<noteq> []" by (simp add: filter_empty_conv)
  then obtain x xs where ls: "?ls = x # xs" by (cases ?ls) auto
  then have "x \<in> set ?ls" by simp
  then have "5 < length x" by simp
  then have "x \<noteq> []" by auto
  with ls show ?thesis by (auto simp add: join_space_empty)
qed

text \<open>
  Claim C5, as stated, fails in the remote variant: there the search query is made from
  the generated script and the template is not read. With a footage provider that
  answers every search by refusing it and quoting the query, two scripts give two
  queries, neither of them an entry of a table.
\<close>

theorem query_from_script_counterexample:
  "keywords_remote ''coffee brewing secrets'' = ''coffee brewing secrets''
   \<and> fetchStockFootage_remote (sample_world\<lparr>pexels := (\<lambda>query. NotOk query)\<rparr>)
        ''coffee brewing secrets''
       = Inl (Error ''Pexels error: coffee brewing secrets'')
   \<and> keywords_remote ''amazing dolphins jumping'' = ''amazing dolphins jumping''
   \<and> fetchStockFootage_remote (sample_world\<lparr>pexels := (\<lambda>query. NotOk query)\<rparr>)
        ''amazing dolphins jumping''
       = Inl (Error ''Pexels error: amazing dolphins jumping'')"
  by (simp add: keywords_remote_def fetchStockFootage_remote_def)

text \<open>
  Claim C5, amended. In the local variant the query is the entry of \<open>searchTerms\<close> for
  the template when the template is a key of the table, and \<^verbatim>\<open>'aesthetic cinematic'\<close>
  when the template is neither a key of the table nor a member name of
  \<^verbatim>\<open>Object.prototype\<close>; the search is made with that query. In the remote variant the
  query is the first three words of the generated script that are longer than five
  characters, joined by spaces, and \<^verbatim>\<open>'business technology'\<close> when the script has no
  such word; the search is made with that query, and the footage step does not read the
  template.
\<close>

theorem footage_query:
  "(map_of searchTerms (to_string t) = Some q \<longrightarrow> query_local t = Str q)
   \<and> (to_string t \<notin> fst ` set searchTerms \<and> to_string t \<notin> set object_prototype_keys
        \<longrightarrow> query_local t = Str ''aesthetic cinematic'')
   \<and> (pexels w (to_string (query_local t)) = NotOk err
        \<longrightarrow> fetchStockFootage_local w t dur jobId = Inl (Error ''Failed to fetch stock footage''))
   \<and> ((\<forall>word \<in> set (split_space text). length word \<le> 5)
        \<longrightarrow> keywords_remote text = ''business technology'')
   \<and> ((\<exists>word \<in> set (split_space text). 5 < length word)
        \<longrightarrow> keywords_remote text
            = join_space (take 3 (filter (\<lambda>word. 5 < length word) (split_space text))))
   \<and> (pexels w (keywords_remote text) = NotOk err
        \<longrightarrow> fetchStockFootage_remote w text = Inl (Error (''Pexels error: '' @ err)))
   \<and> processVideo_resume_remote w (j\<lparr>template := t\<rparr>, RAwaitFootage text)
       = (case processVideo_resume_remote w (j, RAwaitFootage text) of
            (j', task) \<Rightarrow> (j'\<lparr>template := t\<rparr>, task))"
proof (intro conjI impI)
  assume "map_of searchTerms (to_string t) = Some q"
  then show "query_local t = Str q"
    by (auto simp add: query_local_def js_get_def js_or_def truthy_def searchTerms_def
        to_string_simps split: if_splits)
next
  assume "to_string t \<notin> fst ` set searchTerms \<and> to_string t \<notin> set object_prototype_keys"
  then show "query_local t = Str ''aesthetic cinematic''"
    by (simp add: query_local_def js_get_def js_or_def truthy_def searchTerms_def
        to_string_simps)
next
  assume "pexels w (to_string (query_local t)) = NotOk err"
  then show "fetchStockFootage_local w t dur jobId = Inl (Error ''Failed to fetch stock footage'')"
    by (simp add: fetchStockFootage_local_def)
next
  assume "\<forall>word \<in> set (split_space text). length word \<le> 5"
  then have "filter (\<lambda>word. 5 < length word) (split_space text) = []"
    by (auto simp add: filter_empty_conv)
  then show "keywords_remote text = ''business technology''"
    by (simp add: keywords_remote_def)
next
  assume "\<exists>word \<in> set (split_space text). 5 < length word"
  from long_words_join [OF this]
  show "keywords_remote text
          = join_space (take 3 (filter (\<lambda>word. 5 < length word) (split_space text)))"
    by (simp add: keywords_remote_def)
next
  assume "pexels w (keywords_remote text) = NotOk err"
  then show "fetchStockFootage_remote w text = Inl (Error (''Pexels error: '' @ err))"
    by (simp add: fetchStockFootage_remote_def)
next
  show "processVideo_resume_remote w (j\<lparr>template := t\<rparr>, RAwaitFootage text)
       = (case processVideo_resume_remote w (j, RAwaitFootage text) of
            (j', task) \<Rightarrow> (j'\<lparr>template := t\<rparr>, task))"
    by (simp add: catch_error_def split: sum.splits)
qed

theorem footage_query_witness:
  "map_of searchTerms (to_string (Str ''fitness'')) = Some ''workout gym''
   \<and> query_local (Str ''fitness'') = Str ''workout gym''
   \<and> to_string (Str ''cooking'') \<notin> fst ` set searchTerms
   \<and> to_string (Str ''cooking'') \<notin> set object_prototype_keys
   \<and> query_local (Str ''cooking'') = Str ''aesthetic cinematic''
   \<and> list_all (\<lambda>word. length word \<le> 5) (split_space ''so it goes'')
   \<and> keywords_remote ''so it goes'' = ''business technology''
   \<and> list_ex (\<lambda>word. 5 < length word)
         (split_space ''Discover amazing coffee brewing secrets today'')
   \<and> keywords_remote ''Discover amazing coffee brewing secrets today''
       = ''Discover amazing coffee''
   \<and> fetchStockFootage_local (sample_world\<lparr>pexels := (\<lambda>query. NotOk ''rate limited'')\<rparr>)
        (Str ''fitness'') (Finite 12.5) ''j1'' = Inl (Error ''Failed to fetch stock footage'')
   \<and> fetchStockFootage_remote (sample_world\<lparr>pexels := (\<lambda>query. NotOk ''rate limited'')\<rparr>)
        ''so it goes'' = Inl (Error ''Pexels error: rate limited'')"
  using footage_query [of "Str ''fitness''" "''workout gym''"
          "sample_world\<lparr>pexels := (\<lambda>query. NotOk ''rate limited'')\<rparr>" "''rate limited''"
          "Finite 12.5" "''j1''" "''so it goes''"]
        footage_query [of "Str ''cooking''" _ _ _ _ _
          "''Discover amazing coffee brewing secrets today''"]
  by (simp add: searchTerms_def object_prototype_keys_def to_string_simps list_all_iff
      list_ex_iff)

section \<open>Remote assembly: the poll loop\<close>

lemma poll_skip:
  "i < 60 \<Longrightarrow> pending_at w r i \<Longrightarrow>
   poll w r i = (fst (poll w r (Suc i)), 2000 # snd (poll w r (Suc i)))"
  by (subst poll.simps) (auto simp add: pending_at_def split: sum.splits prod.splits)

lemma poll_waits: "length (snd (poll w r i)) \<le> 60 - i \<and> set (snd (poll w r i)) \<subseteq> {2000}"
proof (induction w r i rule: poll.induct)
  case (1 w r i)
  show ?case
  proof (cases "i < 60")
    case False
    then show ?thesis by (simp add: poll.simps)
  next
    case True
    show ?thesis
    proof (cases "shotstack_status w r i")
      case (Inl e)
      with True show ?thesis by (simp add: poll.simps)
    next
      case (Inr d)
      show ?thesis
      proof (cases "rstatus d = ''done'' \<or> rstatus d = ''failed''")
        case True
        with \<open>i < 60\<close> Inr show ?thesis by (auto simp add: poll.simps)
      next
        case False
        then have ih: "length (snd (poll w r (Suc i))) \<le> 60 - Suc i
                       \<and> set (snd (poll w r (Suc i))) \<subseteq> {2000}"
          using "1.IH" [OF \<open>i < 60\<close> Inr] by simp
        have "pending_at w r i" using Inr False by (simp add: pending_at_def)
        from poll_skip [OF \<open>i < 60\<close> this] ih \<open>i < 60\<close> show ?thesis by auto
      qed
    qed
  qed
qed

lemma poll_run:
  "i + n \<le> 60 \<Longrightarrow> (\<forall>m. i \<le> m \<and> m < i + n \<longrightarrow> pending_at w r m) \<Longrightarrow>
   poll w r i = (fst (poll w r (i + n)), replicate n 2000 @ snd (poll w r (i + n)))"
proof (induction n arbitrary: i)
  case 0
  then show ?case by simp
next
  case (Suc n)
  have a: "i < 60" using Suc.prems by simp
  have b: "pending_at w r i" using Suc.prems by simp
  have c: "poll w r (Suc i) = (fst (poll w r (Suc i + n)), replicate n 2000 @ snd (poll w r (Suc i + n)))"
    using Suc.prems by (intro Suc.IH) auto
  show ?case
    by (subst poll_skip [OF a b], subst (1 2) c) simp
qed

text \<open>
  Claim C7. The poll loop of the remote assembly makes at most 60 status reads, each
  after a 2000 ms timer. It returns the result URL at the first read that is
  \<^verbatim>\<open>'done'\<close>, throws \<^verbatim>\<open>'Video rendering failed'\<close> at the first read that is
  \<^verbatim>\<open>'failed'\<close>, and throws \<^verbatim>\<open>'Video rendering timed out'\<close> when all 60 reads are
  neither. \<open>poll\<close> is a total function: the loop ends in every world. After a render
  submission that is accepted, the outcome of the loop is the outcome of
  \<open>assembleVideo\<close>.
\<close>

theorem poll_loop:
  "length (snd (poll w renderId 0)) \<le> 60 \<and> set (snd (poll w renderId 0)) \<subseteq> {2000}
   \<and> (k < 60 \<and> (\<forall>i<k. pending_at w renderId i)
        \<and> shotstack_status w renderId k = Inr d \<and> rstatus d = ''done''
       \<longrightarrow> poll w renderId 0 = (Inr (result_url d), replicate (Suc k) 2000))
   \<and> (k < 60 \<and> (\<forall>i<k. pending_at w renderId i)
        \<and> shotstack_status w renderId k = Inr d \<and> rstatus d = ''failed''
       \<longrightarrow> poll w renderId 0 = (Inl (Error ''Video rendering failed''), replicate (Suc k) 2000))
   \<and> ((\<forall>i<60. pending_at w renderId i)
       \<longrightarrow> poll w renderId 0 = (Inl (Error ''Video rendering timed out''), replicate 60 2000))
   \<and> (clips j = Some cs \<and> cs \<noteq> [] \<and> shotstack_render w (videoClips cs) = Ok renderId
       \<longrightarrow> assembleVideo w j = fst (poll w renderId 0))"
proof (intro conjI impI)
  show "length (snd (poll w renderId 0)) \<le> 60" using poll_waits [of w renderId 0] by simp
  show "set (snd (poll w renderId 0)) \<subseteq> {2000}" using poll_waits [of w renderId 0] by simp
next
  assume h: "k < 60 \<and> (\<forall>i<k. pending_at w renderId i)
        \<and> shotstack_status w renderId k = Inr d \<and> rstatus d = ''done''"
  then have "poll w renderId k = (Inr (result_url d), [2000])"
    by (subst poll.simps) simp
  moreover have "poll w renderId 0 = (fst (poll w renderId (0 + k)), replicate k 2000 @ snd (poll w renderId (0 + k)))"
    using h by (intro poll_run) auto
  ultimately show "poll w renderId 0 = (Inr (result_url d), replicate (Suc k) 2000)"
    by (simp add: replicate_append_same)
next
  assume h: "k < 60 \<and> (\<forall>i<k. pending_at w renderId i)
        \<and> shotstack_status w renderId k = Inr d \<and> rstatus d = ''failed''"
  then have "poll w renderId k = (Inl (Error ''Video rendering failed''), [2000])"
    by (subst poll.simps) simp
  moreover have "poll w renderId 0 = (fst (poll w renderId (0 + k)), replicate k 2000 @ snd (poll w renderId (0 + k)))"
    using h by (intro poll_run) auto
  ultimately show "poll w renderId 0 = (Inl (Error ''Video rendering failed''), replicate (Suc k) 2000)"
    by (simp add: replicate_append_same)
next
  assume h: "\<forall>i<60. pending_at w renderId i"
  have "poll w renderId 60 = (Inl (Error ''Video rendering timed out''), [])"
    by (subst poll.simps) simp
  moreover have "poll w renderId 0 = (fst (poll w renderId (0 + 60)), replicate 60 2000 @ snd (poll w renderId (0 + 60)))"
    using h by (intro poll_run) auto
  ultimately show "poll w renderId 0 = (Inl (Error ''Video rendering timed out''), replicate 60 2000)"
    by simp
next
  assume "clips j = Some cs \<and> cs \<noteq> [] \<and> shotstack_render w (videoClips cs) = Ok renderId"
  then show "assembleVideo w j = fst (poll w renderId 0)"
    by (simp add: assembleVideo_def)
qed


theorem poll_loop_witness:
  "(2::nat) < 60 \<and> pending_at sample_world ''r-1'' 0 \<and> pending_at sample_world ''r-1'' 1
   \<and> poll sample_world ''r-1'' 0 = (Inr (Str ''https://cdn.example/r-1.mp4''), [2000, 2000, 2000])
   \<and> (0::nat) < 60
   \<and> poll (sample_world\<lparr>shotstack_status :=
              (\<lambda>renderId i. Inr \<lparr>rstatus = ''failed'', result_url = Undefined\<rparr>)\<rparr>) ''r-1'' 0
       = (Inl (Error ''Video rendering failed''), [2000])
   \<and> list_all (pending_at (sample_world\<lparr>shotstack_status :=
              (\<lambda>renderId i. Inr \<lparr>rstatus = ''rendering'', result_url = Undefined\<rparr>)\<rparr>) ''r-1'')
         [0..<60]
   \<and> poll (sample_world\<lparr>shotstack_status :=
              (\<lambda>renderId i. Inr \<lparr>rstatus = ''rendering'', result_url = Undefined\<rparr>)\<rparr>) ''r-1'' 0
       = (Inl (Error ''Video rendering timed out''), replicate 60 2000)
   \<and> shotstack_render sample_world
        (videoClips [\<lparr>clip_id = 7, url = Str ''https://videos.example/7-hd.mp4'',
                      clip_duration = 12\<rparr>]) = Ok ''r-1''
   \<and> assembleVideo sample_world
        (new_job_remote ''j1'' 0 sample_body
           \<lparr>clips := Some [\<lparr>clip_id = 7, url = Str ''https://videos.example/7-hd.mp4'',
                            clip_duration = 12\<rparr>]\<rparr>)
       = Inr (Str ''https://cdn.example/r-1.mp4'')"
  using poll_loop [of sample_world "''r-1''" 2
             "\<lparr>rstatus = ''done'', result_url = Str ''https://cdn.example/r-1.mp4''\<rparr>"
             "new_job_remote ''j1'' 0 sample_body
                \<lparr>clips := Some [\<lparr>clip_id = 7, url = Str ''https://videos.example/7-hd.mp4'',
                                 clip_duration = 12\<rparr>]\<rparr>"
             "[\<lparr>clip_id = 7, url = Str ''https://videos.example/7-hd.mp4'',
                clip_duration = 12\<rparr>]"]
        poll_loop [of "sample_world\<lparr>shotstack_status :=
              (\<lambda>renderId i. Inr \<lparr>rstatus = ''failed'', result_url = Undefined\<rparr>)\<rparr>" "''r-1''" 0
             "\<lparr>rstatus = ''failed'', result_url = Undefined\<rparr>"]
        poll_loop [of "sample_world\<lparr>shotstack_status :=
              (\<lambda>renderId i. Inr \<lparr>rstatus = ''rendering'', result_url = Undefined\<rparr>)\<rparr>" "''r-1''"]
  by (simp add: pending_at_def sample_world_def numeral_2_eq_2 numeral_3_eq_3 list_all_iff)

section \<open>Local assembly: the duration probe\<close>

text \<open>
  Claim C10. When the run of ffprobe fails, \<open>getAudioDuration\<close> returns 30 and throws
  nothing. The orchestrator step that awaits the probe therefore always moves on to
  \<^verbatim>\<open>fetching_footage\<close>, whatever the probe did. When the probe inside
  \<open>combineAudioVideo\<close> fails, the ffmpeg command is run with \<^verbatim>\<open>-t 30\<close>, and only the
  outcome of that command decides the result.
\<close>

theorem probe_default:
  "(execPromise w (Ffprobe aPath) k = Inl e \<longrightarrow> getAudioDuration w k aPath = Finite 30)
   \<and> status (fst (processVideo_resume_local w jobId (j, LAwaitProbe aPath))) = ''fetching_footage''
   \<and> snd (processVideo_resume_local w jobId (j, LAwaitProbe aPath))
       = LAwaitFootage aPath (getAudioDuration w 0 aPath)
   \<and> thrown_local w jobId (j, LAwaitProbe aPath) = None
   \<and> (execPromise w (Ffprobe aPath) 1 = Inl e \<longrightarrow>
        combineAudioVideo w aPath vPath jobId
          = (case execPromise w (Ffmpeg vPath aPath (Finite 30) (''./temp/'' @ jobId @ ''-final.mp4'')) 0 of
               Inr out \<Rightarrow> Inr (''./temp/'' @ jobId @ ''-final.mp4'')
             | Inl e' \<Rightarrow> Inl (Error ''Failed to combine audio and video'')))"
  by (simp add: getAudioDuration_def combineAudioVideo_def TEMP_DIR_def Let_def
      split: sum.splits)

theorem probe_default_witness:
  "execPromise (sample_world\<lparr>execPromise := (\<lambda>c k. case c of
        Ffprobe p \<Rightarrow> Inl (Error ''Command failed: ffprobe'') | Ffmpeg v a t out \<Rightarrow> Inr [])\<rparr>)
      (Ffprobe ''./temp/j1-audio.mp3'') 1 = Inl (Error ''Command failed: ffprobe'')
   \<and> getAudioDuration (sample_world\<lparr>execPromise := (\<lambda>c k. case c of
        Ffprobe p \<Rightarrow> Inl (Error ''Command failed: ffprobe'') | Ffmpeg v a t out \<Rightarrow> Inr [])\<rparr>)
        1 ''./temp/j1-audio.mp3'' = Finite 30
   \<and> combineAudioVideo (sample_world\<lparr>execPromise := (\<lambda>c k. case c of
        Ffprobe p \<Rightarrow> Inl (Error ''Command failed: ffprobe'') | Ffmpeg v a t out \<Rightarrow> Inr [])\<rparr>)
        ''./temp/j1-audio.mp3'' ''./temp/j1-footage.mp4'' ''j1'' = Inr ''./temp/j1-final.mp4''"
  using probe_default [of "sample_world\<lparr>execPromise := (\<lambda>c k. case c of
        Ffprobe p \<Rightarrow> Inl (Error ''Command failed: ffprobe'') | Ffmpeg v a t out \<Rightarrow> Inr [])\<rparr>"
        "''./temp/j1-audio.mp3''" 1 "Error ''Command failed: ffprobe''" "''j1''" _
        "''./temp/j1-footage.mp4''"]
  by simp


section \<open>Query handlers\<close>

text \<open>
  Claim C4. For a job id that is not in the store, the status, audio and download
  handlers of both variants answer 404 with an error body. The audio and download
  handlers answer 404 as well when the job is there and the field they serve (the audio
  buffer or path, the video URL or final path) is missing or otherwise falsy.
\<close>

theorem not_found:
  "(jobs rs jobId = None \<longrightarrow>
      getStatus_remote rs jobId = JsonError 404 ''Job not found''
      \<and> getAudio_remote rs jobId = JsonError 404 ''Audio not found''
      \<and> download_remote rs jobId = JsonError 404 ''Video not ready'')
   \<and> (jobs ls jobId = None \<longrightarrow>
      getStatus_local ls jobId = JsonError 404 ''Job not found''
      \<and> getAudio_local ls jobId = JsonError 404 ''Audio not found''
      \<and> download_local ls jobId = JsonError 404 ''Video not found'')
   \<and> (jobs rs jobId = Some rj \<and> audioBuffer rj = None \<longrightarrow>
      getAudio_remote rs jobId = JsonError 404 ''Audio not found'')
   \<and> (jobs rs jobId = Some rj \<and> \<not> truthy (videoUrl rj) \<longrightarrow>
      download_remote rs jobId = JsonError 404 ''Video not ready'')
   \<and> (jobs ls jobId = Some lj \<and> \<not> truthy (audioPath lj) \<longrightarrow>
      getAudio_local ls jobId = JsonError 404 ''Audio not found'')
   \<and> (jobs ls jobId = Some lj \<and> \<not> truthy (finalVideoPath lj) \<longrightarrow>
      download_local ls jobId = JsonError 404 ''Video not found'')"
  by (simp add: getStatus_remote_def getAudio_remote_def download_remote_def
      getStatus_local_def getAudio_local_def download_local_def)

theorem not_found_witness:
  "jobs (empty_server :: (job_remote, rtask) server) ''no-such-job'' = None
   \<and> getStatus_remote empty_server ''no-such-job'' = JsonError 404 ''Job not found''
   \<and> getAudio_remote empty_server ''no-such-job'' = JsonError 404 ''Audio not found''
   \<and> download_remote empty_server ''no-such-job'' = JsonError 404 ''Video not ready''
   \<and> jobs (empty_server :: (job_local, ltask) server) ''no-such-job'' = None
   \<and> getStatus_local empty_server ''no-such-job'' = JsonError 404 ''Job not found''
   \<and> getAudio_local empty_server ''no-such-job'' = JsonError 404 ''Audio not found''
   \<and> download_local empty_server ''no-such-job'' = JsonError 404 ''Video not found''
   \<and> jobs (fst (create_remote ''j1'' 0 sample_body empty_server)) ''j1''
       = Some (fst (processVideo_start_remote (new_job_remote ''j1'' 0 sample_body)))
   \<and> audioBuffer (fst (processVideo_start_remote (new_job_remote ''j1'' 0 sample_body))) = None
   \<and> \<not> truthy (videoUrl (fst (processVideo_start_remote (new_job_remote ''j1'' 0 sample_body))))
   \<and> getAudio_remote (fst (create_remote ''j1'' 0 sample_body empty_server)) ''j1''
       = JsonError 404 ''Audio not found''
   \<and> download_remote (fst (create_remote ''j1'' 0 sample_body empty_server)) ''j1''
       = JsonError 404 ''Video not ready''
   \<and> jobs (fst (create_local ''j1'' 0 sample_body empty_server)) ''j1''
       = Some (fst (processVideo_start_local (new_job_local ''j1'' 0 sample_body)))
   \<and> \<not> truthy (audioPath (fst (processVideo_start_local (new_job_local ''j1'' 0 sample_body))))
   \<and> \<not> truthy (finalVideoPath (fst (processVideo_start_local (new_job_local ''j1'' 0 sample_body))))
   \<and> getAudio_local (fst (create_local ''j1'' 0 sample_body empty_server)) ''j1''
       = JsonError 404 ''Audio not found''
   \<and> download_local (fst (create_local ''j1'' 0 sample_body empty_server)) ''j1''
       = JsonError 404 ''Video not found''"
  using not_found [of "empty_server" "''no-such-job''" "empty_server"]
        not_found [of "fst (create_remote ''j1'' 0 sample_body empty_server)" "''j1''"
               "fst (create_local ''j1'' 0 sample_body empty_server)"
               "fst (processVideo_start_remote (new_job_remote ''j1'' 0 sample_body))"
               "fst (processVideo_start_local (new_job_local ''j1'' 0 sample_body))"]
  by (simp add: empty_server_def create_remote_def create_local_def processVideo_remote_def
      processVideo_local_def processVideo_start_remote_def processVideo_start_local_def
      new_job_remote_def new_job_local_def truthy_def)

section \<open>Runs of the orchestrator\<close>

lemma run_remote_Finished: "run_remote w (j, RFinished) = [(j, RFinished)]"
  by (simp add: run_remote.simps)

lemma run_remote_step:
  "t \<noteq> RFinished \<Longrightarrow> run_remote w (j, t) = (j, t) # run_remote w (processVideo_resume_remote w (j, t))"
  by (simp add: run_remote.simps)

lemma run_local_Finished: "run_local w jobId (j, LFinished) = [(j, LFinished)]"
  by (simp add: run_local.simps)

lemma run_local_step:
  "t \<noteq> LFinished \<Longrightarrow>
   run_local w jobId (j, t) = (j, t) # run_local w jobId (processVideo_resume_local w jobId (j, t))"
  by (simp add: run_local.simps)

subsection \<open>Order of the status values\<close>

lemma statuses_remote_assembly:
  "map status (map fst (run_remote w (j, RAwaitAssembly)))
     \<in> {[status j, ''failed''], [status j, ''completed'']}"
  by (simp add: run_remote_step run_remote_Finished catch_error_def split: sum.splits)

lemma statuses_remote_footage:
  "map status (map fst (run_remote w (j, RAwaitFootage text)))
     \<in> {[status j, ''failed''],
         [status j, ''assembling_video'', ''failed''],
         [status j, ''assembling_video'', ''completed'']}"
proof (cases "fetchStockFootage_remote w text")
  case (Inl e)
  then show ?thesis by (simp add: run_remote_step run_remote_Finished catch_error_def)
next
  case (Inr cs)
  let ?j = "j\<lparr>clips := Some cs, status := ''assembling_video'',
              statusMessage := ''Assembling your video...''\<rparr>"
  from Inr have "run_remote w (j, RAwaitFootage text)
      = (j, RAwaitFootage text) # run_remote w (?j, RAwaitAssembly)"
    by (simp add: run_remote_step)
  with statuses_remote_assembly [of w ?j] show ?thesis by auto
qed

lemma statuses_remote_voice:
  "map status (map fst (run_remote w (j, RAwaitVoice text)))
     \<in> {[status j, ''failed''],
         [status j, ''fetching_footage'', ''failed''],
         [status j, ''fetching_footage'', ''assembling_video'', ''failed''],
         [status j, ''fetching_footage'', ''assembling_video'', ''completed'']}"
proof (cases "generateVoice_remote w text (voice j)")
  case (Inl e)
  then show ?thesis by (simp add: run_remote_step run_remote_Finished catch_error_def)
next
  case (Inr buf)
  let ?j = "j\<lparr>audioBuffer := Some buf, hasAudio := Some True, status := ''fetching_footage'',
              statusMessage := ''Finding perfect video clips...''\<rparr>"
  from Inr have "run_remote w (j, RAwaitVoice text)
      = (j, RAwaitVoice text) # run_remote w (?j, RAwaitFootage text)"
    by (simp add: run_remote_step)
  with statuses_remote_footage [of w ?j "text"] show ?thesis by auto
qed

lemma statuses_remote_script:
  "map status (map fst (run_remote w (j, RAwaitScript)))
     \<in> {[status j, ''failed''],
         [status j, ''generating_voice'', ''failed''],
         [status j, ''generating_voice'', ''fetching_footage'', ''failed''],
         [status j, ''generating_voice'', ''fetching_footage'', ''assembling_video'', ''failed''],
         [status j, ''generating_voice'', ''fetching_footage'', ''assembling_video'', ''completed'']}"
proof (cases "generateScript_remote w (inputScript j) (duration j)")
  case (Inl e)
  then show ?thesis by (simp add: run_remote_step run_remote_Finished catch_error_def)
next
  case (Inr scr)
  let ?j = "j\<lparr>generatedScript := Str scr, status := ''generating_voice'',
              statusMessage := ''Creating AI voiceover...''\<rparr>"
  from Inr have "run_remote w (j, RAwaitScript)
      = (j, RAwaitScript) # run_remote w (?j, RAwaitVoice scr)"
    by (simp add: run_remote_step)
  with statuses_remote_voice [of w ?j scr] show ?thesis by auto
qed

lemma statuses_created_remote:
  "status_changes (new_job_remote jobId now b
      # map fst (run_remote w (processVideo_start_remote (new_job_remote jobId now b))))
   \<in> {[''queued'', ''generating_script'', ''failed''],
       [''queued'', ''generating_script'', ''generating_voice'', ''failed''],
       [''queued'', ''generating_script'', ''generating_voice'', ''fetching_footage'', ''failed''],
       [''queued'', ''generating_script'', ''generating_voice'', ''fetching_footage'',
        ''assembling_video'', ''failed''],
       [''queued'', ''generating_script'', ''generating_voice'', ''fetching_footage'',
        ''assembling_video'', ''completed'']}"
proof -
  let ?j = "new_job_remote jobId now b\<lparr>status := ''generating_script'',
              statusMessage := ''AI is writing your script...''\<rparr>"
  have st: "status ?j = ''generating_script''" by simp
  from statuses_remote_script [of w ?j]
  show ?thesis
    unfolding status_changes_def processVideo_start_remote_def st
    by (auto simp add: new_job_remote_def)
qed


lemma statuses_local_assembly:
  "map status (map fst (run_local w jobId (j, LAwaitAssembly aPath vPath)))
     \<in> {[status j, ''failed''], [status j, ''completed'']}"
  by (simp add: run_local_step run_local_Finished catch_error_def split: sum.splits)

lemma statuses_local_footage:
  "map status (map fst (run_local w jobId (j, LAwaitFootage aPath d)))
     \<in> {[status j, ''failed''],
         [status j, ''assembling_video'', ''failed''],
         [status j, ''assembling_video'', ''completed'']}"
proof (cases "fetchStockFootage_local w (template j) d jobId")
  case (Inl e)
  then show ?thesis by (simp add: run_local_step run_local_Finished catch_error_def)
next
  case (Inr vPath)
  let ?j = "j\<lparr>footagePath := Str vPath, status := ''assembling_video'',
              statusMessage := ''Assembling your video...''\<rparr>"
  from Inr have "run_local w jobId (j, LAwaitFootage aPath d)
      = (j, LAwaitFootage aPath d) # run_local w jobId (?j, LAwaitAssembly aPath vPath)"
    by (simp add: run_local_step)
  with statuses_local_assembly [of w jobId ?j aPath vPath] show ?thesis by auto
qed

lemma statuses_local_probe:
  "map status (map fst (run_local w jobId (j, LAwaitProbe aPath)))
     \<in> {[status j, ''fetching_footage'', ''failed''],
         [status j, ''fetching_footage'', ''assembling_video'', ''failed''],
         [status j, ''fetching_footage'', ''assembling_video'', ''completed'']}"
proof -
  let ?j = "j\<lparr>status := ''fetching_footage'', statusMessage := ''Finding perfect footage...''\<rparr>"
  have "run_local w jobId (j, LAwaitProbe aPath)
      = (j, LAwaitProbe aPath)
        # run_local w jobId (?j, LAwaitFootage aPath (getAudioDuration w 0 aPath))"
    by (simp add: run_local_step)
  with statuses_local_footage [of w jobId ?j aPath "getAudioDuration w 0 aPath"]
  show ?thesis by auto
qed

lemma statuses_local_voice:
  "map status (map fst (run_local w jobId (j, LAwaitVoice scr)))
     \<in> {[status j, ''failed''],
         [status j, status j, ''fetching_footage'', ''failed''],
         [status j, status j, ''fetching_footage'', ''assembling_video'', ''failed''],
         [status j, status j, ''fetching_footage'', ''assembling_video'', ''completed'']}"
proof (cases "thrown_local w jobId (j, LAwaitVoice scr)")
  case (Some e)
  then have "processVideo_resume_local w jobId (j, LAwaitVoice scr) = (catch_error e j, LFinished)"
    by (auto simp add: Let_def split: sum.splits option.splits)
  then show ?thesis by (simp add: run_local_step run_local_Finished catch_error_def)
next
  case None
  let ?p = "TEMP_DIR @ ''/'' @ jobId @ ''-audio.mp3''"
  let ?j = "j\<lparr>audioPath := Str ?p, hasAudio := Some True\<rparr>"
  from None have "processVideo_resume_local w jobId (j, LAwaitVoice scr) = (?j, LAwaitProbe ?p)"
    by (auto simp add: Let_def split: sum.splits option.splits)
  then have "run_local w jobId (j, LAwaitVoice scr)
      = (j, LAwaitVoice scr) # run_local w jobId (?j, LAwaitProbe ?p)"
    by (simp add: run_local_step)
  with statuses_local_probe [of w jobId ?j ?p] show ?thesis by auto
qed

lemma statuses_local_script:
  "map status (map fst (run_local w jobId (j, LAwaitScript)))
     \<in> {[status j, ''failed''],
         [status j, ''generating_voice'', ''failed''],
         [status j, ''generating_voice'', ''generating_voice'', ''fetching_footage'', ''failed''],
         [status j, ''generating_voice'', ''generating_voice'', ''fetching_footage'',
          ''assembling_video'', ''failed''],
         [status j, ''generating_voice'', ''generating_voice'', ''fetching_footage'',
          ''assembling_video'', ''completed'']}"
proof (cases "generateScript_local w (script j) (duration j)")
  case (Inl e)
  then show ?thesis by (simp add: run_local_step run_local_Finished catch_error_def)
next
  case (Inr scr)
  let ?j = "j\<lparr>generatedScript := Str scr, status := ''generating_voice'',
              statusMessage := ''Creating AI voiceover...''\<rparr>"
  from Inr have "run_local w jobId (j, LAwaitScript)
      = (j, LAwaitScript) # run_local w jobId (?j, LAwaitVoice scr)"
    by (simp add: run_local_step)
  with statuses_local_voice [of w jobId ?j scr] show ?thesis by auto
qed

lemma statuses_created_local:
  "status_changes (new_job_local jobId now b
      # map fst (run_local w jobId (processVideo_start_local (new_job_local jobId now b))))
   \<in> {[''pending'', ''generating_script'', ''failed''],
       [''pending'', ''generating_script'', ''generating_voice'', ''failed''],
       [''pending'', ''generating_script'', ''generating_voice'', ''fetching_footage'', ''failed''],
       [''pending'', ''generating_script'', ''generating_voice'', ''fetching_footage'',
        ''assembling_video'', ''failed''],
       [''pending'', ''generating_script'', ''generating_voice'', ''fetching_footage'',
        ''assembling_video'', ''completed'']}"
proof -
  let ?j = "new_job_local jobId now b\<lparr>status := ''generating_script'',
              statusMessage := ''Creating AI script...''\<rparr>"
  have st: "status ?j = ''generating_script''" by simp
  from statuses_local_script [of w jobId ?j]
  show ?thesis
    unfolding status_changes_def processVideo_start_local_def st
    by (auto simp add: new_job_local_def)
qed

text \<open>
  Claim C1. The status values a job takes, from the record the create handler stores to
  the end of the \<open>processVideo\<close> run, are an initial part of
  \<^verbatim>\<open>queued\<close> (\<^verbatim>\<open>pending\<close> in the local variant), \<^verbatim>\<open>generating_script\<close>,
  \<^verbatim>\<open>generating_voice\<close>, \<^verbatim>\<open>fetching_footage\<close>, \<^verbatim>\<open>assembling_video\<close>, in this order
  and without gaps, closed by \<^verbatim>\<open>failed\<close>, or the whole of it closed by
  \<^verbatim>\<open>completed\<close>. No value comes twice and nothing follows \<^verbatim>\<open>failed\<close> or
  \<^verbatim>\<open>completed\<close>.
\<close>

theorem status_order:
  "status_changes (new_job_remote jobId now b
      # map fst (run_remote w (processVideo_start_remote (new_job_remote jobId now b))))
   \<in> {[''queued'', ''generating_script'', ''failed''],
       [''queued'', ''generating_script'', ''generating_voice'', ''failed''],
       [''queued'', ''generating_script'', ''generating_voice'', ''fetching_footage'', ''failed''],
       [''queued'', ''generating_script'', ''generating_voice'', ''fetching_footage'',
        ''assembling_video'', ''failed''],
       [''queued'', ''generating_script'', ''generating_voice'', ''fetching_footage'',
        ''assembling_video'', ''completed'']}
   \<and> status_changes (new_job_local jobId now b
      # map fst (run_local w jobId (processVideo_start_local (new_job_local jobId now b))))
   \<in> {[''pending'', ''generating_script'', ''failed''],
       [''pending'', ''generating_script'', ''generating_voice'', ''failed''],
       [''pending'', ''generating_script'', ''generating_voice'', ''fetching_footage'', ''failed''],
       [''pending'', ''generating_script'', ''generating_voice'', ''fetching_footage'',
        ''assembling_video'', ''failed''],
       [''pending'', ''generating_script'', ''generating_voice'', ''fetching_footage'',
        ''assembling_video'', ''completed'']}"
  using statuses_created_remote [of jobId now b w] statuses_created_local [of jobId now b w]
  by (rule conjI)


theorem status_order_witness:
  "status_changes (new_job_remote ''j1'' 0 sample_body
      # map fst (run_remote sample_world
                   (processVideo_start_remote (new_job_remote ''j1'' 0 sample_body))))
     = [''queued'', ''generating_script'', ''generating_voice'', ''fetching_footage'',
        ''assembling_video'', ''completed'']
   \<and> status_changes (new_job_remote ''j1'' 0 sample_body
      # map fst (run_remote (sample_world\<lparr>openai := (\<lambda>system user. NotOk ''overloaded'')\<rparr>)
                   (processVideo_start_remote (new_job_remote ''j1'' 0 sample_body))))
     = [''queued'', ''generating_script'', ''failed'']
   \<and> status_changes (new_job_remote ''j1'' 0 sample_body
      # map fst (run_remote mute_world
                   (processVideo_start_remote (new_job_remote ''j1'' 0 sample_body))))
     = [''queued'', ''generating_script'', ''generating_voice'', ''failed'']
   \<and> status_changes (new_job_remote ''j1'' 0 sample_body
      # map fst (run_remote (sample_world\<lparr>pexels := (\<lambda>query. NotOk ''rate limited'')\<rparr>)
                   (processVideo_start_remote (new_job_remote ''j1'' 0 sample_body))))
     = [''queued'', ''generating_script'', ''generating_voice'', ''fetching_footage'', ''failed'']
   \<and> status_changes (new_job_remote ''j1'' 0 sample_body
      # map fst (run_remote barren_world
                   (processVideo_start_remote (new_job_remote ''j1'' 0 sample_body))))
     = [''queued'', ''generating_script'', ''generating_voice'', ''fetching_footage'',
        ''assembling_video'', ''failed'']
   \<and> status_changes (new_job_local ''j1'' 0 sample_body
      # map fst (run_local sample_world ''j1''
                   (processVideo_start_local (new_job_local ''j1'' 0 sample_body))))
     = [''pending'', ''generating_script'', ''generating_voice'', ''fetching_footage'',
        ''assembling_video'', ''completed'']
   \<and> status_changes (new_job_local ''j1'' 0 sample_body
      # map fst (run_local (sample_world\<lparr>openai := (\<lambda>system user. NotOk ''overloaded'')\<rparr>) ''j1''
                   (processVideo_start_local (new_job_local ''j1'' 0 sample_body))))
     = [''pending'', ''generating_script'', ''failed'']
   \<and> status_changes (new_job_local ''j1'' 0 sample_body
      # map fst (run_local mute_world ''j1''
                   (processVideo_start_local (new_job_local ''j1'' 0 sample_body))))
     = [''pending'', ''generating_script'', ''generating_voice'', ''failed'']
   \<and> status_changes (new_job_local ''j1'' 0 sample_body
      # map fst (run_local barren_world ''j1''
                   (processVideo_start_local (new_job_local ''j1'' 0 sample_body))))
     = [''pending'', ''generating_script'', ''generating_voice'', ''fetching_footage'', ''failed'']
   \<and> status_changes (new_job_local ''j1'' 0 sample_body
      # map fst (run_local (sample_world\<lparr>execPromise := (\<lambda>c k. Inl (Error ''Command failed''))\<rparr>)
                   ''j1'' (processVideo_start_local (new_job_local ''j1'' 0 sample_body))))
     = [''pending'', ''generating_script'', ''generating_voice'', ''fetching_footage'',
        ''assembling_video'', ''failed'']"
  using status_order [of "''j1''" 0 sample_body sample_world]
        status_order [of "''j1''" 0 sample_body mute_world]
  by (simp add: sample_defs)

subsection \<open>A stage that throws\<close>

lemma resume_thrown_remote:
  "thrown_remote w (j, t) = Some e \<Longrightarrow>
   processVideo_resume_remote w (j, t) = (catch_error e j, RFinished)"
  by (cases t) (auto split: sum.splits)

lemma resume_thrown_local:
  "thrown_local w jobId (j, t) = Some e \<Longrightarrow>
   processVideo_resume_local w jobId (j, t) = (catch_error e j, LFinished)"
  by (cases t) (auto simp add: Let_def split: sum.splits)

lemma run_remote_suffix:
  "c \<in> set (run_remote w c0) \<Longrightarrow> \<exists>pre. run_remote w c0 = pre @ run_remote w c"
proof (induction w c0 rule: run_remote.induct)
  case (1 w j t)
  show ?case
  proof (cases "c = (j, t)")
    case True
    then show ?thesis by (intro exI [of _ "[]"]) simp
  next
    case False
    with "1.prems" have nf: "t \<noteq> RFinished" by (auto simp add: run_remote.simps split: if_splits)
    with "1.prems" False have "c \<in> set (run_remote w (processVideo_resume_remote w (j, t)))"
      by (simp add: run_remote_step)
    from "1.IH" [OF nf this] obtain pre
      where "run_remote w (processVideo_resume_remote w (j, t)) = pre @ run_remote w c" ..
    with nf have "run_remote w (j, t) = ((j, t) # pre) @ run_remote w c"
      by (simp add: run_remote_step)
    then show ?thesis ..
  qed
qed

lemma run_local_suffix:
  "c \<in> set (run_local w jobId c0) \<Longrightarrow> \<exists>pre. run_local w jobId c0 = pre @ run_local w jobId c"
proof (induction w jobId c0 rule: run_local.induct)
  case (1 w jobId j t)
  show ?case
  proof (cases "c = (j, t)")
    case True
    then show ?thesis by (intro exI [of _ "[]"]) simp
  next
    case False
    with "1.prems" have nf: "t \<noteq> LFinished" by (auto simp add: run_local.simps split: if_splits)
    with "1.prems" False
    have "c \<in> set (run_local w jobId (processVideo_resume_local w jobId (j, t)))"
      by (simp add: run_local_step)
    from "1.IH" [OF nf this] obtain pre
      where "run_local w jobId (processVideo_resume_local w jobId (j, t))
               = pre @ run_local w jobId c" ..
    with nf have "run_local w jobId (j, t) = ((j, t) # pre) @ run_local w jobId c"
      by (simp add: run_local_step)
    then show ?thesis ..
  qed
qed

lemma unpopulated_remote_resume:
  "unpopulated_remote t j \<Longrightarrow>
   unpopulated_remote (snd (processVideo_resume_remote w (j, t)))
                      (fst (processVideo_resume_remote w (j, t)))"
  by (cases t) (auto simp add: catch_error_def split: sum.splits)

lemma unpopulated_local_resume:
  "unpopulated_local t j \<Longrightarrow>
   unpopulated_local (snd (processVideo_resume_local w jobId (j, t)))
                     (fst (processVideo_resume_local w jobId (j, t)))"
  by (cases t) (auto simp add: catch_error_def Let_def split: sum.splits option.splits)

lemma unpopulated_remote_run:
  "unpopulated_remote (snd c0) (fst c0) \<Longrightarrow> c \<in> set (run_remote w c0) \<Longrightarrow>
   unpopulated_remote (snd c) (fst c)"
proof (induction w c0 rule: run_remote.induct)
  case (1 w j t)
  show ?case
  proof (cases "c = (j, t)")
    case True
    with "1.prems" show ?thesis by simp
  next
    case False
    with "1.prems" have nf: "t \<noteq> RFinished" by (auto simp add: run_remote.simps split: if_splits)
    with "1.prems" False have "c \<in> set (run_remote w (processVideo_resume_remote w (j, t)))"
      by (simp add: run_remote_step)
    moreover from "1.prems" have "unpopulated_remote (snd (processVideo_resume_remote w (j, t)))
                      (fst (processVideo_resume_remote w (j, t)))"
      by (simp add: unpopulated_remote_resume)
    ultimately show ?thesis using "1.IH" [OF nf] by simp
  qed
qed

lemma unpopulated_local_run:
  "unpopulated_local (snd c0) (fst c0) \<Longrightarrow> c \<in> set (run_local w jobId c0) \<Longrightarrow>
   unpopulated_local (snd c) (fst c)"
proof (induction w jobId c0 rule: run_local.induct)
  case (1 w jobId j t)
  show ?case
  proof (cases "c = (j, t)")
    case True
    with "1.prems" show ?thesis by simp
  next
    case False
    with "1.prems" have nf: "t \<noteq> LFinished" by (auto simp add: run_local.simps split: if_splits)
    with "1.prems" False
    have "c \<in> set (run_local w jobId (processVideo_resume_local w jobId (j, t)))"
      by (simp add: run_local_step)
    moreover from "1.prems"
    have "unpopulated_local (snd (processVideo_resume_local w jobId (j, t)))
                      (fst (processVideo_resume_local w jobId (j, t)))"
      by (simp add: unpopulated_local_resume)
    ultimately show ?thesis using "1.IH" [OF nf] by simp
  qed
qed

lemma unpopulated_remote_catch:
  "unpopulated_remote t (catch_error e j) = unpopulated_remote t j"
  by (cases t) (simp_all add: catch_error_def)

lemma unpopulated_local_catch:
  "unpopulated_local t (catch_error e j) = unpopulated_local t j"
  by (cases t) (simp_all add: catch_error_def)

lemma throwing_stage_remote:
  assumes "(j, t) \<in> set (run_remote w (processVideo_start_remote (new_job_remote jobId now b)))"
    and "thrown_remote w (j, t) = Some e"
  shows "processVideo_resume_remote w (j, t) = (catch_error e j, RFinished)
    \<and> (\<exists>pre. run_remote w (processVideo_start_remote (new_job_remote jobId now b))
               = pre @ [(j, t), (catch_error e j, RFinished)])
    \<and> status (catch_error e j) = ''failed''
    \<and> statusMessage (catch_error e j) = ''Error: '' @ message e
    \<and> unpopulated_remote t (catch_error e j)"
proof -
  let ?c0 = "processVideo_start_remote (new_job_remote jobId now b)"
  have r: "processVideo_resume_remote w (j, t) = (catch_error e j, RFinished)"
    using assms(2) by (rule resume_thrown_remote)
  from assms(2) have nf: "t \<noteq> RFinished" by auto
  from run_remote_suffix [OF assms(1)] obtain pre
    where "run_remote w ?c0 = pre @ run_remote w (j, t)" ..
  with nf r have "run_remote w ?c0 = pre @ [(j, t), (catch_error e j, RFinished)]"
    by (simp add: run_remote_step run_remote_Finished)
  then have p: "\<exists>pre. run_remote w ?c0 = pre @ [(j, t), (catch_error e j, RFinished)]" ..
  have "unpopulated_remote (snd ?c0) (fst ?c0)"
    by (simp add: processVideo_start_remote_def new_job_remote_def)
  from unpopulated_remote_run [OF this assms(1)]
  have u: "unpopulated_remote t (catch_error e j)" by (simp add: unpopulated_remote_catch)
  from r p u show ?thesis by (simp add: catch_error_def)
qed

lemma throwing_stage_local:
  assumes "(j, t) \<in> set (run_local w jobId (processVideo_start_local (new_job_local jobId now b)))"
    and "thrown_local w jobId (j, t) = Some e"
  shows "processVideo_resume_local w jobId (j, t) = (catch_error e j, LFinished)
    \<and> (\<exists>pre. run_local w jobId (processVideo_start_local (new_job_local jobId now b))
               = pre @ [(j, t), (catch_error e j, LFinished)])
    \<and> status (catch_error e j) = ''failed''
    \<and> statusMessage (catch_error e j) = ''Error: '' @ message e
    \<and> unpopulated_local t (catch_error e j)"
proof -
  let ?c0 = "processVideo_start_local (new_job_local jobId now b)"
  have r: "processVideo_resume_local w jobId (j, t) = (catch_error e j, LFinished)"
    using assms(2) by (rule resume_thrown_local)
  from assms(2) have nf: "t \<noteq> LFinished" by auto
  from run_local_suffix [OF assms(1)] obtain pre
    where "run_local w jobId ?c0 = pre @ run_local w jobId (j, t)" ..
  with nf r have "run_local w jobId ?c0 = pre @ [(j, t), (catch_error e j, LFinished)]"
    by (simp add: run_local_step run_local_Finished)
  then have p: "\<exists>pre. run_local w jobId ?c0 = pre @ [(j, t), (catch_error e j, LFinished)]" ..
  have "unpopulated_local (snd ?c0) (fst ?c0)"
    by (simp add: processVideo_start_local_def new_job_local_def)
  from unpopulated_local_run [OF this assms(1)]
  have u: "unpopulated_local t (catch_error e j)" by (simp add: unpopulated_local_catch)
  from r p u show ?thesis by (simp add: catch_error_def)
qed


text \<open>
  Claim C2. Take a run of \<open>processVideo\<close> on a job the create handler has just stored,
  and a cut of it at which the awaited stage throws \<open>e\<close>. Then the next step is the
  \<^verbatim>\<open>catch\<close> block: the status becomes \<^verbatim>\<open>failed\<close>, the status message is
  \<^verbatim>\<open>Error: \<close> followed by the message of \<open>e\<close>, and the run ends there, with no further
  stage. The artifact fields of the throwing stage and of every later stage are as the
  create handler left them.
\<close>

theorem stage_failure:
  "((j, t) \<in> set (run_remote w (processVideo_start_remote (new_job_remote jobId now b)))
      \<and> thrown_remote w (j, t) = Some e
    \<longrightarrow> processVideo_resume_remote w (j, t) = (catch_error e j, RFinished)
      \<and> (\<exists>pre. run_remote w (processVideo_start_remote (new_job_remote jobId now b))
                 = pre @ [(j, t), (catch_error e j, RFinished)])
      \<and> status (catch_error e j) = ''failed''
      \<and> statusMessage (catch_error e j) = ''Error: '' @ message e
      \<and> unpopulated_remote t (catch_error e j))
   \<and> ((lj, lt) \<in> set (run_local w jobId (processVideo_start_local (new_job_local jobId now b)))
      \<and> thrown_local w jobId (lj, lt) = Some e
    \<longrightarrow> processVideo_resume_local w jobId (lj, lt) = (catch_error e lj, LFinished)
      \<and> (\<exists>pre. run_local w jobId (processVideo_start_local (new_job_local jobId now b))
                 = pre @ [(lj, lt), (catch_error e lj, LFinished)])
      \<and> status (catch_error e lj) = ''failed''
      \<and> statusMessage (catch_error e lj) = ''Error: '' @ message e
      \<and> unpopulated_local lt (catch_error e lj))"
  using throwing_stage_remote [of j t w jobId now b e] throwing_stage_local [of lj lt w jobId now b e]
  by blast

theorem stage_failure_witness:
  "(new_job_remote ''j1'' 0 sample_body
      \<lparr>generatedScript := Str sample_script, status := ''generating_voice'',
       statusMessage := ''Creating AI voiceover...''\<rparr>, RAwaitVoice sample_script)
     \<in> set (run_remote mute_world (processVideo_start_remote (new_job_remote ''j1'' 0 sample_body)))
   \<and> thrown_remote mute_world
        (new_job_remote ''j1'' 0 sample_body
           \<lparr>generatedScript := Str sample_script, status := ''generating_voice'',
            statusMessage := ''Creating AI voiceover...''\<rparr>, RAwaitVoice sample_script)
       = Some (Error ''ElevenLabs error: quota exceeded'')
   \<and> last (run_remote mute_world (processVideo_start_remote (new_job_remote ''j1'' 0 sample_body)))
       = (new_job_remote ''j1'' 0 sample_body
            \<lparr>generatedScript := Str sample_script, status := ''failed'',
             statusMessage := ''Error: ElevenLabs error: quota exceeded''\<rparr>, RFinished)
   \<and> unpopulated_remote (RAwaitVoice sample_script)
        (new_job_remote ''j1'' 0 sample_body
            \<lparr>generatedScript := Str sample_script, status := ''failed'',
             statusMessage := ''Error: ElevenLabs error: quota exceeded''\<rparr>)
   \<and> (new_job_local ''j1'' 0 sample_body
      \<lparr>generatedScript := Str sample_script, audioPath := Str ''./temp/j1-audio.mp3'',
       hasAudio := Some True, status := ''fetching_footage'',
       statusMessage := ''Finding perfect footage...''\<rparr>,
      LAwaitFootage ''./temp/j1-audio.mp3'' (Finite 12.5))
     \<in> set (run_local barren_world ''j1''
               (processVideo_start_local (new_job_local ''j1'' 0 sample_body)))
   \<and> thrown_local barren_world ''j1''
        (new_job_local ''j1'' 0 sample_body
           \<lparr>generatedScript := Str sample_script, audioPath := Str ''./temp/j1-audio.mp3'',
            hasAudio := Some True, status := ''fetching_footage'',
            statusMessage := ''Finding perfect footage...''\<rparr>,
         LAwaitFootage ''./temp/j1-audio.mp3'' (Finite 12.5))
       = Some (Error ''No stock footage found'')
   \<and> last (run_local barren_world ''j1''
               (processVideo_start_local (new_job_local ''j1'' 0 sample_body)))
       = (new_job_local ''j1'' 0 sample_body
           \<lparr>generatedScript := Str sample_script, audioPath := Str ''./temp/j1-audio.mp3'',
            hasAudio := Some True, status := ''failed'',
            statusMessage := ''Error: No stock footage found''\<rparr>, LFinished)
   \<and> unpopulated_local (LAwaitFootage ''./temp/j1-audio.mp3'' (Finite 12.5))
        (new_job_local ''j1'' 0 sample_body
           \<lparr>generatedScript := Str sample_script, audioPath := Str ''./temp/j1-audio.mp3'',
            hasAudio := Some True, status := ''failed'',
            statusMessage := ''Error: No stock footage found''\<rparr>)"
  using stage_failure [of
      "new_job_remote ''j1'' 0 sample_body
         \<lparr>generatedScript := Str sample_script, status := ''generating_voice'',
          statusMessage := ''Creating AI voiceover...''\<rparr>"
      "RAwaitVoice sample_script" mute_world "''j1''" 0 sample_body
      "Error ''ElevenLabs error: quota exceeded''"]
    stage_failure [of _ _ barren_world "''j1''" 0 sample_body "Error ''No stock footage found''"
      "new_job_local ''j1'' 0 sample_body
         \<lparr>generatedScript := Str sample_script, audioPath := Str ''./temp/j1-audio.mp3'',
          hasAudio := Some True, status := ''fetching_footage'',
          statusMessage := ''Finding perfect footage...''\<rparr>"
      "LAwaitFootage ''./temp/j1-audio.mp3'' (Finite 12.5)"]
  by (simp add: sample_defs)

section \<open>A footage search without results\<close>

text \<open>
  Claim C6, as stated, fails in the remote variant: when the search returns an empty
  list, \<open>fetchStockFootage\<close> returns the empty list of clips and throws nothing.
\<close>

theorem zero_footage_counterexample:
  "pexels barren_world (keywords_remote sample_script) = Ok (Some [])
   \<and> fetchStockFootage_remote barren_world sample_script = Inr []"
  by (simp add: barren_world_def sample_world_def fetchStockFootage_remote_def)

text \<open>
  Claim C6, amended. Let the script and voice stages succeed and the footage search
  return no results. In the remote variant the footage fetch returns an empty clip list,
  the job goes on to \<^verbatim>\<open>assembling_video\<close>, and the assembly throws
  \<^verbatim>\<open>No video clips found\<close>. In the local variant the footage fetch itself throws
  \<^verbatim>\<open>No stock footage found\<close>. In both the job ends in \<^verbatim>\<open>failed\<close> with the status
  message \<^verbatim>\<open>Error: \<close> followed by that text, and the audio handler still serves the
  audio of the voice stage.
\<close>

theorem zero_footage:
  "(generateScript_remote w (body_script b) (body_duration b) = Inr scr
      \<and> generateVoice_remote w scr (body_voice b) = Inr buf
      \<and> pexels w (keywords_remote scr) = Ok (Some [])
    \<longrightarrow> fetchStockFootage_remote w scr = Inr []
      \<and> assembleVideo w (j\<lparr>clips := Some []\<rparr>) = Inl (Error ''No video clips found'')
      \<and> status_changes (map fst (run_remote w (processVideo_start_remote (new_job_remote jobId now b))))
          = [''generating_script'', ''generating_voice'', ''fetching_footage'',
             ''assembling_video'', ''failed'']
      \<and> statusMessage (fst (last (run_remote w (processVideo_start_remote (new_job_remote jobId now b)))))
          = ''Error: No video clips found''
      \<and> getAudio_remote
           (rs\<lparr>jobs := (jobs rs)(jobId \<mapsto>
                  fst (last (run_remote w (processVideo_start_remote (new_job_remote jobId now b)))))\<rparr>)
           jobId = SendAudio buf)
   \<and> (generateScript_local w (body_script b) (body_duration b) = Inr scr
      \<and> generateVoice_local w scr (body_voice b) = Inr buf
      \<and> writeFileSync w (''./temp/'' @ jobId @ ''-audio.mp3'') buf = None
      \<and> pexels w (to_string (query_local (body_template b))) \<in> {Ok None, Ok (Some [])}
    \<longrightarrow> fetchStockFootage_local w (body_template b) d jobId = Inl (Error ''No stock footage found'')
      \<and> status_changes (map fst (run_local w jobId (processVideo_start_local (new_job_local jobId now b))))
          = [''generating_script'', ''generating_voice'', ''fetching_footage'', ''failed'']
      \<and> statusMessage (fst (last (run_local w jobId (processVideo_start_local (new_job_local jobId now b)))))
          = ''Error: No stock footage found''
      \<and> getAudio_local
           (ls\<lparr>jobs := (jobs ls)(jobId \<mapsto>
                  fst (last (run_local w jobId (processVideo_start_local (new_job_local jobId now b)))))\<rparr>)
           jobId = SendFile ''audio/mpeg'' (''./temp/'' @ jobId @ ''-audio.mp3''))"
proof (intro conjI impI)
  assume h: "generateScript_remote w (body_script b) (body_duration b) = Inr scr
      \<and> generateVoice_remote w scr (body_voice b) = Inr buf
      \<and> pexels w (keywords_remote scr) = Ok (Some [])"
  then have f: "fetchStockFootage_remote w scr = Inr []"
    by (simp add: fetchStockFootage_remote_def)
  have a: "\<And>j. assembleVideo w (j\<lparr>clips := Some []\<rparr>) = Inl (Error ''No video clips found'')"
    by (simp add: assembleVideo_def)
  let ?j1 = "new_job_remote jobId now b\<lparr>status := ''generating_script'',
               statusMessage := ''AI is writing your script...''\<rparr>"
  let ?j2 = "?j1\<lparr>generatedScript := Str scr, status := ''generating_voice'',
               statusMessage := ''Creating AI voiceover...''\<rparr>"
  let ?j3 = "?j2\<lparr>audioBuffer := Some buf, hasAudio := Some True, status := ''fetching_footage'',
               statusMessage := ''Finding perfect video clips...''\<rparr>"
  let ?j4 = "?j3\<lparr>clips := Some [], status := ''assembling_video'',
               statusMessage := ''Assembling your video...''\<rparr>"
  note inp = new_job_remote_fields
  have a4: "\<And>j. clips j = Some [] \<Longrightarrow> assembleVideo w j = Inl (Error ''No video clips found'')"
    by (simp add: assembleVideo_def)
  have run: "run_remote w (processVideo_start_remote (new_job_remote jobId now b))
      = [(?j1, RAwaitScript), (?j2, RAwaitVoice scr), (?j3, RAwaitFootage scr),
         (?j4, RAwaitAssembly), (catch_error (Error ''No video clips found'') ?j4, RFinished)]"
    unfolding processVideo_start_remote_def
    by (simp add: h f a4 inp run_remote_step run_remote_Finished del: One_nat_def)
  show "fetchStockFootage_remote w scr = Inr []" by (rule f)
  show "assembleVideo w (j\<lparr>clips := Some []\<rparr>) = Inl (Error ''No video clips found'')" by (rule a)
  show "status_changes (map fst (run_remote w (processVideo_start_remote (new_job_remote jobId now b))))
          = [''generating_script'', ''generating_voice'', ''fetching_footage'',
             ''assembling_video'', ''failed'']"
    unfolding run by (simp add: status_changes_def catch_error_def)
  show "statusMessage (fst (last (run_remote w (processVideo_start_remote (new_job_remote jobId now b)))))
          = ''Error: No video clips found''"
    unfolding run by (simp add: catch_error_def)
  show "getAudio_remote
           (rs\<lparr>jobs := (jobs rs)(jobId \<mapsto>
                  fst (last (run_remote w (processVideo_start_remote (new_job_remote jobId now b)))))\<rparr>)
           jobId = SendAudio buf"
    unfolding run by (simp add: getAudio_remote_def catch_error_def)
next
  assume h: "generateScript_local w (body_script b) (body_duration b) = Inr scr
      \<and> generateVoice_local w scr (body_voice b) = Inr buf
      \<and> writeFileSync w (''./temp/'' @ jobId @ ''-audio.mp3'') buf = None
      \<and> pexels w (to_string (query_local (body_template b))) \<in> {Ok None, Ok (Some [])}"
  then have f: "\<And>d. fetchStockFootage_local w (body_template b) d jobId
                  = Inl (Error ''No stock footage found'')"
    by (auto simp add: fetchStockFootage_local_def)
  let ?p = "TEMP_DIR @ ''/'' @ jobId @ ''-audio.mp3''"
  let ?j1 = "new_job_local jobId now b\<lparr>status := ''generating_script'',
               statusMessage := ''Creating AI script...''\<rparr>"
  let ?j2 = "?j1\<lparr>generatedScript := Str scr, status := ''generating_voice'',
               statusMessage := ''Creating AI voiceover...''\<rparr>"
  let ?j3 = "?j2\<lparr>audioPath := Str ?p, hasAudio := Some True\<rparr>"
  let ?j4 = "?j3\<lparr>status := ''fetching_footage'', statusMessage := ''Finding perfect footage...''\<rparr>"
  note inp = new_job_local_fields
  have w: "writeFileSync w (TEMP_DIR @ ''/'' @ jobId @ ''-audio.mp3'') buf = None"
    using h by (simp add: TEMP_DIR_def)
  have run: "run_local w jobId (processVideo_start_local (new_job_local jobId now b))
      = [(?j1, LAwaitScript), (?j2, LAwaitVoice scr), (?j3, LAwaitProbe ?p),
         (?j4, LAwaitFootage ?p (getAudioDuration w 0 ?p)),
         (catch_error (Error ''No stock footage found'') ?j4, LFinished)]"
    unfolding processVideo_start_local_def
    using w by (simp add: h f inp run_local_step run_local_Finished Let_def)
  show "fetchStockFootage_local w (body_template b) d jobId = Inl (Error ''No stock footage found'')"
    by (rule f)
  show "status_changes (map fst (run_local w jobId (processVideo_start_local (new_job_local jobId now b))))
          = [''generating_script'', ''generating_voice'', ''fetching_footage'', ''failed'']"
    unfolding run by (simp add: status_changes_def catch_error_def)
  show "statusMessage (fst (last (run_local w jobId (processVideo_start_local (new_job_local jobId now b)))))
          = ''Error: No stock footage found''"
    unfolding run by (simp add: catch_error_def)
  show "getAudio_local
           (ls\<lparr>jobs := (jobs ls)(jobId \<mapsto>
                  fst (last (run_local w jobId (processVideo_start_local (new_job_local jobId now b)))))\<rparr>)
           jobId = SendFile ''audio/mpeg'' (''./temp/'' @ jobId @ ''-audio.mp3'')"
    unfolding run
    by (simp add: getAudio_local_def catch_error_def truthy_def to_string_simps TEMP_DIR_def)
qed


theorem zero_footage_witness:
  "generateScript_remote barren_world (body_script sample_body) (body_duration sample_body)
     = Inr sample_script
   \<and> generateVoice_remote barren_world sample_script (body_voice sample_body) = Inr [73, 68, 51]
   \<and> pexels barren_world (keywords_remote sample_script) = Ok (Some [])
   \<and> status_changes (map fst (run_remote barren_world
         (processVideo_start_remote (new_job_remote ''j1'' 0 sample_body))))
       = [''generating_script'', ''generating_voice'', ''fetching_footage'',
          ''assembling_video'', ''failed'']
   \<and> statusMessage (fst (last (run_remote barren_world
         (processVideo_start_remote (new_job_remote ''j1'' 0 sample_body)))))
       = ''Error: No video clips found''
   \<and> getAudio_remote
         (empty_server\<lparr>jobs := [''j1'' \<mapsto>
            fst (last (run_remote barren_world
              (processVideo_start_remote (new_job_remote ''j1'' 0 sample_body))))]\<rparr>) ''j1''
       = SendAudio [73, 68, 51]
   \<and> generateScript_local barren_world (body_script sample_body) (body_duration sample_body)
       = Inr sample_script
   \<and> generateVoice_local barren_world sample_script (body_voice sample_body) = Inr [73, 68, 51]
   \<and> writeFileSync barren_world (''./temp/'' @ ''j1'' @ ''-audio.mp3'') [73, 68, 51] = None
   \<and> pexels barren_world (to_string (query_local (body_template sample_body))) = Ok (Some [])
   \<and> status_changes (map fst (run_local barren_world ''j1''
         (processVideo_start_local (new_job_local ''j1'' 0 sample_body))))
       = [''generating_script'', ''generating_voice'', ''fetching_footage'', ''failed'']
   \<and> statusMessage (fst (last (run_local barren_world ''j1''
         (processVideo_start_local (new_job_local ''j1'' 0 sample_body)))))
       = ''Error: No stock footage found''
   \<and> getAudio_local
         (empty_server\<lparr>jobs := [''j1'' \<mapsto>
            fst (last (run_local barren_world ''j1''
              (processVideo_start_local (new_job_local ''j1'' 0 sample_body))))]\<rparr>) ''j1''
       = SendFile ''audio/mpeg'' ''./temp/j1-audio.mp3''"
proof -
  have h: "generateScript_remote barren_world (body_script sample_body) (body_duration sample_body)
             = Inr sample_script"
    "generateVoice_remote barren_world sample_script (body_voice sample_body) = Inr [73, 68, 51]"
    "pexels barren_world (keywords_remote sample_script) = Ok (Some [])"
    "generateScript_local barren_world (body_script sample_body) (body_duration sample_body)
       = Inr sample_script"
    "generateVoice_local barren_world sample_script (body_voice sample_body) = Inr [73, 68, 51]"
    "writeFileSync barren_world (''./temp/'' @ ''j1'' @ ''-audio.mp3'') [73, 68, 51] = None"
    "pexels barren_world (to_string (query_local (body_template sample_body))) = Ok (Some [])"
    by (simp_all add: barren_world_def sample_world_def sample_body_def sample_script_def
        generateScript_remote_def generateVoice_remote_def generateScript_local_def
        generateVoice_local_def)
  from h zero_footage [of barren_world sample_body sample_script "[73, 68, 51]"
         "new_job_remote ''j1'' 0 sample_body" "''j1''" 0 empty_server "Finite 30" empty_server]
  show ?thesis by (simp add: empty_server_def)
qed


section \<open>The create handler\<close>




end
